theory Spec2Isabelle
  imports Main
begin

section \<open>Data model\<close>

text \<open>
  The repository holds two versions of one command-line record store: \<^verbatim>\<open>src/main.go\<close> and
  \<^verbatim>\<open>src/unnamed/part_000\<close>. Both declare the same types, the same four error values and
  the same function names. \<^verbatim>\<open>listItems\<close> and \<^verbatim>\<open>findUserById\<close> are the same text in
  both; \<^verbatim>\<open>addItem\<close> and \<^verbatim>\<open>removeUser\<close> differ, so the functions of
  \<^verbatim>\<open>part_000\<close> that differ are embedded a second time under the suffix \<open>_part0\<close>.
\<close>

text \<open>
  Go errors. The first four are the package variables built with \<^verbatim>\<open>errors.New\<close>;
  \<open>Errorf\<close> is a value built by \<^verbatim>\<open>fmt.Errorf\<close>; the last three are errors that come back
  from \<^verbatim>\<open>os.OpenFile\<close>, from \<^verbatim>\<open>io.ReadAll\<close> or \<^verbatim>\<open>Write\<close>, and from
  \<^verbatim>\<open>encoding/json\<close>.
\<close>

datatype error =
    ErrFileNameFlagMissing
  | ErrOperationFlagMissing
  | ErrItemFlagMissing
  | ErrIDFlagMissing
  | Errorf string
  | PathError string
  | IOError string
  | JSONError string

text \<open>The method \<^verbatim>\<open>Error()\<close>: the message of an error value.\<close>

fun Error :: "error \<Rightarrow> string" where
  "Error ErrFileNameFlagMissing = ''-fileName flag has to be specified''"
| "Error ErrOperationFlagMissing = ''-operation flag has to be specified''"
| "Error ErrItemFlagMissing = ''-item flag has to be specified''"
| "Error ErrIDFlagMissing = ''-id flag has to be specified''"
| "Error (Errorf msg) = msg"
| "Error (PathError msg) = msg"
| "Error (IOError msg) = msg"
| "Error (JSONError msg) = msg"

text \<open>
  \<^verbatim>\<open>type User struct { ID string; Email string; Age int }\<close>. No arithmetic is ever done
  on \<open>Age\<close>: the program only hands it from the decoder to the encoder.
\<close>

record User =
  ID :: string
  Email :: string
  Age :: int

text \<open>
  A Go slice is \<^verbatim>\<open>nil\<close> or holds a sequence; \<^verbatim>\<open>encoding/json\<close> tells the two apart
  (\<^verbatim>\<open>null\<close> against \<^verbatim>\<open>[]\<close>), so the model does too. \<open>elems\<close> is what
  \<^verbatim>\<open>range\<close> iterates over, \<open>append_slice\<close> is \<^verbatim>\<open>append(s, x)\<close>.
\<close>

type_synonym 'a slice = "'a list option"

fun elems :: "'a slice \<Rightarrow> 'a list" where
  "elems None = []"
| "elems (Some xs) = xs"

definition append_slice :: "'a slice \<Rightarrow> 'a \<Rightarrow> 'a slice" where
  "append_slice s x = Some (elems s @ [x])"

text \<open>
  \<^verbatim>\<open>append(item[:i], item[i+1:]...)\<close> for an index \<open>i\<close> of the slice: the elements before
  \<open>i\<close> followed by those after it. The result is never \<^verbatim>\<open>nil\<close>.
\<close>

definition delete_at :: "'a slice \<Rightarrow> nat \<Rightarrow> 'a slice" where
  "delete_at s i = Some (take i (elems s) @ drop (Suc i) (elems s))"

text \<open>
  \<^verbatim>\<open>type Arguments map[string]string\<close>; reading a key that is absent gives the empty
  string.
\<close>

type_synonym Arguments = "string \<rightharpoonup> string"

definition arg :: "Arguments \<Rightarrow> string \<Rightarrow> string" where
  "arg args k = (case args k of None \<Rightarrow> [] | Some v \<Rightarrow> v)"

section \<open>The library calls the program makes\<close>

text \<open>
  \<^verbatim>\<open>encoding/json\<close> is not code of the repository. The program calls
  \<^verbatim>\<open>json.Unmarshal\<close> at the types \<^verbatim>\<open>[]User\<close> and \<^verbatim>\<open>User\<close> and \<^verbatim>\<open>json.Marshal\<close> at
  the same two types; the four calls are the fields of a codec that every operation takes
  as its first argument. Each call returns an error or a value, as in Go.
\<close>

record json =
  UnmarshalUsers :: "string \<Rightarrow> error + User slice"
  UnmarshalUser :: "string \<Rightarrow> error + User"
  MarshalUsers :: "User slice \<Rightarrow> error + string"
  MarshalUser :: "User \<Rightarrow> error + string"

text \<open>
  The file system: the content of every regular file by path, and for every path the
  error (if any) that opening it and reading it gives.
\<close>

record world =
  files :: "string \<rightharpoonup> string"
  open_error :: "string \<rightharpoonup> error"
  read_error :: "string \<rightharpoonup> error"

datatype osFile = File string

text \<open>
  \<^verbatim>\<open>os.OpenFile(fileName, os.O_RDWR|os.O_CREATE, 0644)\<close>: fails with the path's error, or
  opens the file, creating it empty when it does not exist.
\<close>

definition OpenFile :: "world \<Rightarrow> string \<Rightarrow> world \<times> (error + osFile)" where
  "OpenFile w name =
     (case open_error w name of
        Some err \<Rightarrow> (w, Inl err)
      | None \<Rightarrow>
          (case files w name of
             None \<Rightarrow> (w\<lparr>files := (files w)(name \<mapsto> [])\<rparr>, Inr (File name))
           | Some data \<Rightarrow> (w, Inr (File name))))"

text \<open>
  \<^verbatim>\<open>io.ReadAll(file)\<close> on a file that was just opened: its whole content, or an error.
  (A handle is only ever read right after \<open>OpenFile\<close> returned it, when its file is there.)
\<close>

definition ReadAll :: "world \<Rightarrow> osFile \<Rightarrow> error + string" where
  "ReadAll w f =
     (case f of File name \<Rightarrow>
        (case read_error w name of
           Some err \<Rightarrow> Inl err
         | None \<Rightarrow> (case files w name of None \<Rightarrow> Inr [] | Some data \<Rightarrow> Inr data)))"

text \<open>
  An \<^verbatim>\<open>io.Writer\<close>: what has been written so far, and for every payload on which
  \<^verbatim>\<open>Write\<close> fails, the number of bytes that it writes before it stops and the error that
  it returns. The program drops the count that \<^verbatim>\<open>Write\<close> returns and keeps the error.
\<close>

record writer =
  written :: string
  write_error :: "string \<rightharpoonup> nat \<times> error"

definition Write :: "writer \<Rightarrow> string \<Rightarrow> writer \<times> error option" where
  "Write wr p =
     (case write_error wr p of
        Some (n, err) \<Rightarrow> (wr\<lparr>written := written wr @ take n p\<rparr>, Some err)
      | None \<Rightarrow> (wr\<lparr>written := written wr @ p\<rparr>, None))"

section \<open>The operations of \<^verbatim>\<open>src/main.go\<close>\<close>

text \<open>
  The loop of \<^verbatim>\<open>addItem\<close> (lines 72 to 80): true when it leaves through the
  \<^verbatim>\<open>return\<close> in its body, that is, when some record has the new record's id.
\<close>

fun addItem_range :: "User list \<Rightarrow> User \<Rightarrow> bool" where
  "addItem_range [] user = False"
| "addItem_range (userItem # rest) user =
     (if ID userItem = ID user then True else addItem_range rest user)"

definition addItem :: "json \<Rightarrow> world \<Rightarrow> osFile \<Rightarrow> writer \<Rightarrow> string \<Rightarrow> writer \<times> error option" where
  "addItem j w f wr item =
     (case ReadAll w f of
        Inl err \<Rightarrow> (wr, Some err)
      | Inr data \<Rightarrow>
          if length data = 0 then Write wr item
          else
            (case UnmarshalUsers j data of
               Inl err \<Rightarrow> (wr, Some err)
             | Inr itemArray \<Rightarrow>
                 (case UnmarshalUser j item of
                    Inl err \<Rightarrow> (wr, Some err)
                  | Inr user \<Rightarrow>
                      if addItem_range (elems itemArray) user
                      then Write wr (''Item with id '' @ ID user @ '' already exists'')
                      else
                        (case MarshalUsers j (append_slice itemArray user) of
                           Inl err \<Rightarrow> (wr, Some err)
                         | Inr out \<Rightarrow> Write wr out))))"

definition listItems :: "json \<Rightarrow> world \<Rightarrow> osFile \<Rightarrow> writer \<Rightarrow> writer \<times> error option" where
  "listItems j w f wr =
     (case ReadAll w f of
        Inl err \<Rightarrow> (wr, Some err)
      | Inr data \<Rightarrow>
          if length data = 0 then Write wr []
          else
            (case UnmarshalUsers j data of
               Inl err \<Rightarrow> (wr, Some err)
             | Inr item \<Rightarrow>
                 (case MarshalUsers j item of
                    Inl err \<Rightarrow> (wr, Some err)
                  | Inr out \<Rightarrow> Write wr out)))"

text \<open>
  The loop of \<^verbatim>\<open>findUserById\<close> (lines 145 to 157): the record at which it leaves
  through the \<^verbatim>\<open>return\<close> in its body, if it does. The parameter that Go calls
  \<^verbatim>\<open>id\<close> is \<open>uid\<close> here and below, \<open>id\<close> being the identity function of HOL.
\<close>

fun findUserById_range :: "User list \<Rightarrow> string \<Rightarrow> User option" where
  "findUserById_range [] uid = None"
| "findUserById_range (user # rest) uid =
     (if ID user = uid then Some user else findUserById_range rest uid)"

definition findUserById :: "json \<Rightarrow> world \<Rightarrow> osFile \<Rightarrow> writer \<Rightarrow> string \<Rightarrow> writer \<times> error option" where
  "findUserById j w f wr uid =
     (case ReadAll w f of
        Inl err \<Rightarrow> (wr, Some err)
      | Inr data \<Rightarrow>
          if length data = 0 then Write wr []
          else
            (case UnmarshalUsers j data of
               Inl err \<Rightarrow> (wr, Some err)
             | Inr item \<Rightarrow>
                 (case findUserById_range (elems item) uid of
                    Some user \<Rightarrow>
                      (case MarshalUser j user of
                         Inl err \<Rightarrow> (wr, Some err)
                       | Inr out \<Rightarrow> Write wr out)
                  | None \<Rightarrow> Write wr [])))"

text \<open>
  The loop of \<^verbatim>\<open>removeUser\<close> (lines 187 to 200), run from index \<open>i\<close>: the index at
  which the body's condition first holds, if it does.
\<close>

fun removeUser_range :: "nat \<Rightarrow> User list \<Rightarrow> string \<Rightarrow> nat option" where
  "removeUser_range i [] uid = None"
| "removeUser_range i (user # rest) uid =
     (if ID user = uid then Some i else removeUser_range (Suc i) rest uid)"

definition removeUser :: "json \<Rightarrow> world \<Rightarrow> osFile \<Rightarrow> writer \<Rightarrow> string \<Rightarrow> writer \<times> error option" where
  "removeUser j w f wr uid =
     (case ReadAll w f of
        Inl err \<Rightarrow> (wr, Some err)
      | Inr data \<Rightarrow>
          if length data = 0 then Write wr []
          else
            (case UnmarshalUsers j data of
               Inl err \<Rightarrow> (wr, Some err)
             | Inr item \<Rightarrow>
                 (case removeUser_range 0 (elems item) uid of
                    Some i \<Rightarrow>
                      (case MarshalUsers j (delete_at item i) of
                         Inl err \<Rightarrow> (wr, Some err)
                       | Inr out \<Rightarrow> Write wr out)
                  | None \<Rightarrow> Write wr (''Item with id '' @ uid @ '' not found''))))"

text \<open>
  \<^verbatim>\<open>Perform\<close> returns the file system it leaves, the writer it leaves and its error
  (\<open>None\<close> is Go's \<^verbatim>\<open>nil\<close>). The deferred \<^verbatim>\<open>file.Close()\<close> changes no content.
\<close>

definition Perform :: "json \<Rightarrow> world \<Rightarrow> Arguments \<Rightarrow> writer \<Rightarrow> world \<times> writer \<times> error option" where
  "Perform j w args wr =
     (let fileName = arg args ''fileName'' in
      if fileName = [] then (w, wr, Some ErrFileNameFlagMissing)
      else
        let operation = arg args ''operation'' in
        if operation = [] then (w, wr, Some ErrOperationFlagMissing)
        else
          (case OpenFile w fileName of
             (w', Inl err) \<Rightarrow> (w', wr, Some err)
           | (w', Inr f) \<Rightarrow>
               if operation = ''add'' then
                 (let item = arg args ''item'' in
                  if item = [] then (w', wr, Some ErrItemFlagMissing)
                  else (w', addItem j w' f wr item))
               else if operation = ''list'' then (w', listItems j w' f wr)
               else if operation = ''findById'' then
                 (let uid = arg args ''id'' in
                  if uid = [] then (w', wr, Some ErrIDFlagMissing)
                  else (w', findUserById j w' f wr uid))
               else if operation = ''remove'' then
                 (let uid = arg args ''id'' in
                  if uid = [] then (w', wr, Some ErrIDFlagMissing)
                  else (w', removeUser j w' f wr uid))
               else (w', wr, Some (Errorf (''Operation '' @ operation @ '' not allowed!'')))))"

section \<open>The operations of \<^verbatim>\<open>src/unnamed/part_000\<close> that differ\<close>

text \<open>
  \<^verbatim>\<open>addItem\<close> of \<^verbatim>\<open>part_000\<close> has no branch for an empty file: it decodes whatever it
  read. Its loop (lines 63 to 68) is the loop of \<^verbatim>\<open>main.go\<close>.
\<close>

definition addItem_part0 :: "json \<Rightarrow> world \<Rightarrow> osFile \<Rightarrow> writer \<Rightarrow> string \<Rightarrow> writer \<times> error option" where
  "addItem_part0 j w f wr item =
     (case ReadAll w f of
        Inl err \<Rightarrow> (wr, Some err)
      | Inr data \<Rightarrow>
          (case UnmarshalUsers j data of
             Inl err \<Rightarrow> (wr, Some err)
           | Inr itemList \<Rightarrow>
               (case UnmarshalUser j item of
                  Inl err \<Rightarrow> (wr, Some err)
                | Inr user \<Rightarrow>
                    if addItem_range (elems itemList) user
                    then Write wr (''Item with id '' @ ID user @ '' already exists'')
                    else
                      (case MarshalUsers j (append_slice itemList user) of
                         Inl err \<Rightarrow> (wr, Some err)
                       | Inr out \<Rightarrow> Write wr out))))"

text \<open>
  \<^verbatim>\<open>removeUser\<close> of \<^verbatim>\<open>part_000\<close>: on an empty file it writes the not-found message; on
  any other file its loop (lines 175 to 180) deletes the first match and breaks, and
  whatever the loop did, the slice is then encoded and written.
\<close>

definition removeUser_part0 :: "json \<Rightarrow> world \<Rightarrow> osFile \<Rightarrow> writer \<Rightarrow> string \<Rightarrow> writer \<times> error option" where
  "removeUser_part0 j w f wr uid =
     (case ReadAll w f of
        Inl err \<Rightarrow> (wr, Some err)
      | Inr data \<Rightarrow>
          if length data = 0 then Write wr (''Item with id '' @ uid @ '' not found'')
          else
            (case UnmarshalUsers j data of
               Inl err \<Rightarrow> (wr, Some err)
             | Inr item \<Rightarrow>
                 (let item' = (case removeUser_range 0 (elems item) uid of
                                 Some i \<Rightarrow> delete_at item i
                               | None \<Rightarrow> item)
                  in case MarshalUsers j item' of
                       Inl err \<Rightarrow> (wr, Some err)
                     | Inr out \<Rightarrow> Write wr out)))"

definition Perform_part0 :: "json \<Rightarrow> world \<Rightarrow> Arguments \<Rightarrow> writer \<Rightarrow> world \<times> writer \<times> error option" where
  "Perform_part0 j w args wr =
     (let fileName = arg args ''fileName'' in
      if fileName = [] then (w, wr, Some ErrFileNameFlagMissing)
      else
        let operation = arg args ''operation'' in
        if operation = [] then (w, wr, Some ErrOperationFlagMissing)
        else
          (case OpenFile w fileName of
             (w', Inl err) \<Rightarrow> (w', wr, Some err)
           | (w', Inr f) \<Rightarrow>
               if operation = ''add'' then
                 (if arg args ''item'' = [] then (w', wr, Some ErrItemFlagMissing)
                  else (w', addItem_part0 j w' f wr (arg args ''item'')))
               else if operation = ''list'' then (w', listItems j w' f wr)
               else if operation = ''findById'' then
                 (let uid = arg args ''id'' in
                  if uid = [] then (w', wr, Some ErrIDFlagMissing)
                  else (w', findUserById j w' f wr uid))
               else if operation = ''remove'' then
                 (let uid = arg args ''id'' in
                  if uid = [] then (w', wr, Some ErrIDFlagMissing)
                  else (w', removeUser_part0 j w' f wr uid))
               else (w', wr, Some (Errorf (''Operation '' @ operation @ '' not allowed!'')))))"

section \<open>A codec to run the operations on\<close>

text \<open>
  The theorems below hold for every codec. To run the operations on the texts of the
  specification, \<open>encoding_json\<close> is a codec that reads and writes JSON the way
  \<^verbatim>\<open>encoding/json\<close> does at the types \<^verbatim>\<open>[]User\<close> and \<^verbatim>\<open>User\<close>, on this fragment:
  texts of ASCII bytes (other bytes are passed through as they are, which is what Go does
  with well-formed UTF-8 apart from U+2028 and U+2029), with no \<^verbatim>\<open>\u\<close> escape in a
  string. The wording of the decoder's errors is not modelled.
\<close>

datatype jvalue =
    JNull
  | JBool bool
  | JNumber string
  | JString string
  | JArray "jvalue list"
  | JObject "(string \<times> jvalue) list"

text \<open>White space between tokens: space, tab, line feed, carriage return.\<close>

definition is_space :: "char \<Rightarrow> bool" where
  "is_space c = (c = CHR '' '' \<or> c = CHR 0x09 \<or> c = CHR 0x0A \<or> c = CHR 0x0D)"

fun skip_space :: "string \<Rightarrow> string" where
  "skip_space [] = []"
| "skip_space (c # cs) = (if is_space c then skip_space cs else c # cs)"

definition is_digit :: "char \<Rightarrow> bool" where
  "is_digit c = (c \<in> set ''0123456789'')"

text \<open>
  A string, read from behind its opening quote up to its closing quote: its content with
  the escapes replaced, and the text after the closing quote. A control character in a
  string is a syntax error.
\<close>

definition unescape :: "char \<Rightarrow> char option" where
  "unescape c =
     (if c = CHR 0x22 \<or> c = CHR 0x5C \<or> c = CHR ''/'' then Some c
      else if c = CHR ''b'' then Some (CHR 0x08)
      else if c = CHR ''f'' then Some (CHR 0x0C)
      else if c = CHR ''n'' then Some (CHR 0x0A)
      else if c = CHR ''r'' then Some (CHR 0x0D)
      else if c = CHR ''t'' then Some (CHR 0x09)
      else None)"

fun scan_string :: "string \<Rightarrow> (string \<times> string) option" where
  "scan_string [] = None"
| "scan_string [c] = (if c = CHR 0x22 then Some ([], []) else None)"
| "scan_string (c # e # cs) =
     (if c = CHR 0x22 then Some ([], e # cs)
      else if c = CHR 0x5C then
        (case unescape e of
           None \<Rightarrow> None
         | Some d \<Rightarrow> map_option (\<lambda>(s, r). (d # s, r)) (scan_string cs))
      else if (of_char c :: nat) < 0x20 then None
      else map_option (\<lambda>(s, r). (c # s, r)) (scan_string (e # cs)))"

text \<open>
  A number: an optional minus sign, \<^verbatim>\<open>0\<close> or digits that do not start with
  \<^verbatim>\<open>0\<close>, an optional fraction, an optional exponent. The token is kept as text.
\<close>

fun scan_digits :: "string \<Rightarrow> string \<times> string" where
  "scan_digits [] = ([], [])"
| "scan_digits (c # cs) =
     (if is_digit c then (case scan_digits cs of (ds, r) \<Rightarrow> (c # ds, r)) else ([], c # cs))"

definition scan_sign :: "string \<Rightarrow> string \<Rightarrow> string \<times> string" where
  "scan_sign signs s =
     (case s of [] \<Rightarrow> ([], []) | c # cs \<Rightarrow> if c \<in> set signs then ([c], cs) else ([], s))"

definition scan_frac :: "string \<Rightarrow> (string \<times> string) option" where
  "scan_frac s =
     (case s of
        [] \<Rightarrow> Some ([], [])
      | c # cs \<Rightarrow>
          if c = CHR ''.'' then
            (case scan_digits cs of (ds, r) \<Rightarrow> if ds = [] then None else Some (c # ds, r))
          else Some ([], s))"

definition scan_exp :: "string \<Rightarrow> (string \<times> string) option" where
  "scan_exp s =
     (case s of
        [] \<Rightarrow> Some ([], [])
      | c # cs \<Rightarrow>
          if c = CHR ''e'' \<or> c = CHR ''E'' then
            (case scan_sign ''+-'' cs of (sg, r) \<Rightarrow>
               (case scan_digits r of (ds, r') \<Rightarrow>
                  if ds = [] then None else Some (c # sg @ ds, r')))
          else Some ([], s))"

definition scan_number :: "string \<Rightarrow> (string \<times> string) option" where
  "scan_number s =
     (case scan_sign ''-'' s of (sg, r) \<Rightarrow>
        (case scan_digits r of (ds, r1) \<Rightarrow>
           if ds = [] \<or> (hd ds = CHR ''0'' \<and> tl ds \<noteq> []) then None
           else
             (case scan_frac r1 of
                None \<Rightarrow> None
              | Some (fr, r2) \<Rightarrow>
                  (case scan_exp r2 of
                     None \<Rightarrow> None
                   | Some (ex, r3) \<Rightarrow> Some (sg @ ds @ fr @ ex, r3)))))"

definition scan_word :: "string \<Rightarrow> string \<Rightarrow> string option" where
  "scan_word word s = (if take (length word) s = word then Some (drop (length word) s) else None)"

text \<open>
  A value, the elements of an array behind its \<^verbatim>\<open>[\<close> and the members of an object behind
  its \<^verbatim>\<open>{\<close>. The first argument bounds how deep the calls nest. A nested value costs
  two calls and a further element or member one, and each takes two bytes of the text or
  more, so the bound that \<open>parse_json\<close> starts from, twice the length of the text and one
  more, is never used up. The whole text must be one value between white space. (The limit
  that Go puts on the depth of a text, 10000 levels, is not modelled.)
\<close>

fun parse_value :: "nat \<Rightarrow> string \<Rightarrow> (jvalue \<times> string) option"
  and parse_elements :: "nat \<Rightarrow> string \<Rightarrow> (jvalue list \<times> string) option"
  and parse_members :: "nat \<Rightarrow> string \<Rightarrow> ((string \<times> jvalue) list \<times> string) option"
where
  "parse_value 0 s = None"
| "parse_value (Suc n) s =
     (case skip_space s of
        [] \<Rightarrow> None
      | c # cs \<Rightarrow>
          if c = CHR 0x22 then map_option (\<lambda>(t, r). (JString t, r)) (scan_string cs)
          else if c = CHR ''['' then
            (case skip_space cs of
               [] \<Rightarrow> None
             | d # ds \<Rightarrow>
                 if d = CHR '']'' then Some (JArray [], ds)
                 else map_option (\<lambda>(vs, r). (JArray vs, r)) (parse_elements n cs))
          else if c = CHR ''{'' then
            (case skip_space cs of
               [] \<Rightarrow> None
             | d # ds \<Rightarrow>
                 if d = CHR ''}'' then Some (JObject [], ds)
                 else map_option (\<lambda>(ms, r). (JObject ms, r)) (parse_members n cs))
          else if c = CHR ''t'' then map_option (Pair (JBool True)) (scan_word ''rue'' cs)
          else if c = CHR ''f'' then map_option (Pair (JBool False)) (scan_word ''alse'' cs)
          else if c = CHR ''n'' then map_option (Pair JNull) (scan_word ''ull'' cs)
          else map_option (\<lambda>(t, r). (JNumber t, r)) (scan_number (c # cs)))"
| "parse_elements 0 s = None"
| "parse_elements (Suc n) s =
     (case parse_value n s of
        None \<Rightarrow> None
      | Some (v, r) \<Rightarrow>
          (case skip_space r of
             [] \<Rightarrow> None
           | c # cs \<Rightarrow>
               if c = CHR '','' then map_option (\<lambda>(vs, r'). (v # vs, r')) (parse_elements n cs)
               else if c = CHR '']'' then Some ([v], cs)
               else None))"
| "parse_members 0 s = None"
| "parse_members (Suc n) s =
     (case skip_space s of
        [] \<Rightarrow> None
      | q # s1 \<Rightarrow>
          if q \<noteq> CHR 0x22 then None
          else
            (case scan_string s1 of
               None \<Rightarrow> None
             | Some (k, s2) \<Rightarrow>
                 (case skip_space s2 of
                    [] \<Rightarrow> None
                  | c # s3 \<Rightarrow>
                      if c \<noteq> CHR '':'' then None
                      else
                        (case parse_value n s3 of
                           None \<Rightarrow> None
                         | Some (v, r) \<Rightarrow>
                             (case skip_space r of
                                [] \<Rightarrow> None
                              | d # ds \<Rightarrow>
                                  if d = CHR '','' then
                                    map_option (\<lambda>(ms, r'). ((k, v) # ms, r')) (parse_members n ds)
                                  else if d = CHR ''}'' then Some ([(k, v)], ds)
                                  else None)))))"

definition parse_json :: "string \<Rightarrow> jvalue option" where
  "parse_json s =
     (case parse_value (Suc (length s + length s)) s of
        None \<Rightarrow> None
      | Some (v, r) \<Rightarrow> if skip_space r = [] then Some v else None)"

text \<open>
  Decoding into a \<open>User\<close>. A key names a field when it equals the field's tag up to the
  case of its letters; other keys are skipped; a later member overwrites an earlier one;
  \<^verbatim>\<open>null\<close> leaves the field as it is; a value of the wrong kind, and a number that is
  not an integer of 64 bits (the size of \<^verbatim>\<open>int\<close> on the usual platforms), is an error.
\<close>

definition lower :: "char \<Rightarrow> char" where
  "lower c =
     (case map_of (zip ''ABCDEFGHIJKLMNOPQRSTUVWXYZ'' ''abcdefghijklmnopqrstuvwxyz'') c of
        None \<Rightarrow> c
      | Some d \<Rightarrow> d)"

definition names_field :: "string \<Rightarrow> string \<Rightarrow> bool" where
  "names_field k name = (map lower k = name)"

fun digit_value :: "char \<Rightarrow> int" where
  "digit_value c = int (of_char c) - 48"

fun int_of_digits :: "int \<Rightarrow> string \<Rightarrow> int option" where
  "int_of_digits acc [] = Some acc"
| "int_of_digits acc (c # cs) =
     (if is_digit c then int_of_digits (10 * acc + digit_value c) cs else None)"

definition int_of_number :: "string \<Rightarrow> int option" where
  "int_of_number t =
     (case t of
        [] \<Rightarrow> None
      | c # cs \<Rightarrow>
          if c = CHR ''-'' then map_option uminus (int_of_digits 0 cs)
          else int_of_digits 0 (c # cs))"

definition string_field :: "jvalue \<Rightarrow> string \<Rightarrow> error + string" where
  "string_field v old =
     (case v of
        JString s \<Rightarrow> Inr s
      | JNull \<Rightarrow> Inr old
      | _ \<Rightarrow> Inl (JSONError ''json: cannot unmarshal into Go struct field of type string''))"

definition int_field :: "jvalue \<Rightarrow> int \<Rightarrow> error + int" where
  "int_field v old =
     (case v of
        JNumber t \<Rightarrow>
          (case int_of_number t of
             Some i \<Rightarrow>
               if - (2 ^ 63) \<le> i \<and> i < 2 ^ 63 then Inr i
               else Inl (JSONError ''json: cannot unmarshal number into Go struct field of type int'')
           | None \<Rightarrow> Inl (JSONError ''json: cannot unmarshal number into Go struct field of type int''))
      | JNull \<Rightarrow> Inr old
      | _ \<Rightarrow> Inl (JSONError ''json: cannot unmarshal into Go struct field of type int''))"

fun decode_members :: "(string \<times> jvalue) list \<Rightarrow> User \<Rightarrow> error + User" where
  "decode_members [] u = Inr u"
| "decode_members ((k, v) # ms) u =
     (if names_field k ''id'' then
        (case string_field v (ID u) of
           Inl err \<Rightarrow> Inl err
         | Inr s \<Rightarrow> decode_members ms (u\<lparr>ID := s\<rparr>))
      else if names_field k ''email'' then
        (case string_field v (Email u) of
           Inl err \<Rightarrow> Inl err
         | Inr s \<Rightarrow> decode_members ms (u\<lparr>Email := s\<rparr>))
      else if names_field k ''age'' then
        (case int_field v (Age u) of
           Inl err \<Rightarrow> Inl err
         | Inr i \<Rightarrow> decode_members ms (u\<lparr>Age := i\<rparr>))
      else decode_members ms u)"

text \<open>
  \<^verbatim>\<open>json.Unmarshal\<close> into a fresh \<^verbatim>\<open>User\<close> and into a \<^verbatim>\<open>nil\<close> slice of them:
  \<^verbatim>\<open>null\<close> leaves either as it is, an element \<^verbatim>\<open>null\<close> of an array is the zero record.
\<close>

definition zero_User :: User where
  "zero_User = \<lparr>ID = [], Email = [], Age = 0\<rparr>"

definition decode_User :: "jvalue \<Rightarrow> error + User" where
  "decode_User v =
     (case v of
        JObject ms \<Rightarrow> decode_members ms zero_User
      | JNull \<Rightarrow> Inr zero_User
      | _ \<Rightarrow> Inl (JSONError ''json: cannot unmarshal into Go value of type main.User''))"

fun decode_elements :: "jvalue list \<Rightarrow> error + User list" where
  "decode_elements [] = Inr []"
| "decode_elements (v # vs) =
     (case decode_User v of
        Inl err \<Rightarrow> Inl err
      | Inr u \<Rightarrow>
          (case decode_elements vs of
             Inl err \<Rightarrow> Inl err
           | Inr us \<Rightarrow> Inr (u # us)))"

definition decode_Users :: "jvalue \<Rightarrow> error + User slice" where
  "decode_Users v =
     (case v of
        JArray vs \<Rightarrow> (case decode_elements vs of Inl err \<Rightarrow> Inl err | Inr us \<Rightarrow> Inr (Some us))
      | JNull \<Rightarrow> Inr None
      | _ \<Rightarrow> Inl (JSONError ''json: cannot unmarshal into Go value of type []main.User''))"

definition Unmarshal_Users :: "string \<Rightarrow> error + User slice" where
  "Unmarshal_Users s =
     (case parse_json s of
        None \<Rightarrow> Inl (JSONError ''json: syntax error'')
      | Some v \<Rightarrow> decode_Users v)"

definition Unmarshal_User :: "string \<Rightarrow> error + User" where
  "Unmarshal_User s =
     (case parse_json s of
        None \<Rightarrow> Inl (JSONError ''json: syntax error'')
      | Some v \<Rightarrow> decode_User v)"

text \<open>
  \<^verbatim>\<open>json.Marshal\<close>: the fields in the order of the struct under their tags, with no white
  space. In a string the quote and the backslash get a backslash; line feed, carriage
  return and tab are written \<^verbatim>\<open>\n\<close>, \<^verbatim>\<open>\r\<close>, \<^verbatim>\<open>\t\<close>; the other control characters and
  \<^verbatim>\<open><\<close>, \<^verbatim>\<open>>\<close>, \<^verbatim>\<open>&\<close> are written \<^verbatim>\<open>\u00XX\<close>. A \<^verbatim>\<open>nil\<close> slice is
  \<^verbatim>\<open>null\<close>. At these types \<^verbatim>\<open>json.Marshal\<close> returns no error.
\<close>

definition hex_digit :: "nat \<Rightarrow> char" where
  "hex_digit n = ''0123456789abcdef'' ! n"

definition encode_char :: "char \<Rightarrow> string" where
  "encode_char c =
     (if c = CHR 0x22 \<or> c = CHR 0x5C then [CHR 0x5C, c]
      else if c = CHR 0x0A then [CHR 0x5C, CHR ''n'']
      else if c = CHR 0x0D then [CHR 0x5C, CHR ''r'']
      else if c = CHR 0x09 then [CHR 0x5C, CHR ''t'']
      else if (of_char c :: nat) < 0x20 \<or> c = CHR ''<'' \<or> c = CHR ''>'' \<or> c = CHR ''&'' then
        [CHR 0x5C, CHR ''u'', CHR ''0'', CHR ''0'',
         hex_digit (of_char c div 16), hex_digit (of_char c mod 16)]
      else [c])"

definition encode_string :: "string \<Rightarrow> string" where
  "encode_string s = CHR 0x22 # concat (map encode_char s) @ [CHR 0x22]"

fun encode_nat :: "nat \<Rightarrow> string" where
  "encode_nat n =
     (if n < 10 then [''0123456789'' ! n]
      else encode_nat (n div 10) @ [''0123456789'' ! (n mod 10)])"

declare encode_nat.simps [simp del]

definition encode_int :: "int \<Rightarrow> string" where
  "encode_int i = (if i < 0 then CHR ''-'' # encode_nat (nat (- i)) else encode_nat (nat i))"

definition encode_User :: "User \<Rightarrow> string" where
  "encode_User u =
     ''{'' @ encode_string ''id'' @ '':'' @ encode_string (ID u) @
     '','' @ encode_string ''email'' @ '':'' @ encode_string (Email u) @
     '','' @ encode_string ''age'' @ '':'' @ encode_int (Age u) @ ''}''"

fun join :: "string list \<Rightarrow> string" where
  "join [] = []"
| "join [x] = x"
| "join (x # y # ys) = x @ '','' @ join (y # ys)"

definition encode_Users :: "User slice \<Rightarrow> string" where
  "encode_Users s =
     (case s of None \<Rightarrow> ''null'' | Some us \<Rightarrow> ''['' @ join (map encode_User us) @ '']'')"

definition encoding_json :: json where
  "encoding_json =
     \<lparr>UnmarshalUsers = Unmarshal_Users, UnmarshalUser = Unmarshal_User,
      MarshalUsers = (\<lambda>s. Inr (encode_Users s)), MarshalUser = (\<lambda>u. Inr (encode_User u))\<rparr>"

section \<open>One call after the other\<close>

text \<open>
  Every call of the program is a run of \<^verbatim>\<open>main\<close> with its own arguments and its own
  writer; what one run hands to the next is the file system. \<open>in_turn\<close> makes the runs of a
  list one after the other, with either version of \<^verbatim>\<open>Perform\<close>, and returns the file system
  that the last one leaves.
\<close>

fun in_turn ::
  "(world \<Rightarrow> Arguments \<Rightarrow> writer \<Rightarrow> world \<times> writer \<times> error option) \<Rightarrow>
   world \<Rightarrow> (Arguments \<times> writer) list \<Rightarrow> world" where
  "in_turn perform w [] = w"
| "in_turn perform w ((args, wr) # rest) = in_turn perform (fst (perform w args wr)) rest"

section \<open>The command line and the texts of the examples\<close>

text \<open>
  \<^verbatim>\<open>parseArgs\<close> (lines 30 to 43), as a function of the values of the four flags: a flag
  that is not given has the empty string.
\<close>

definition parseArgs :: "string \<Rightarrow> string \<Rightarrow> string \<Rightarrow> string \<Rightarrow> Arguments" where
  "parseArgs idFlag operationFlag itemFlag fileNameFlag =
     [''id'' \<mapsto> idFlag, ''operation'' \<mapsto> operationFlag, ''item'' \<mapsto> itemFlag,
      ''fileName'' \<mapsto> fileNameFlag]"

text \<open>
  A file system with no file, one whose only file is \<^verbatim>\<open>users.json\<close> with a given
  content, and a writer that has written nothing and takes every payload; opening and
  reading never fail on the two file systems.
\<close>

definition no_files :: world where
  "no_files = \<lparr>files = Map.empty, open_error = Map.empty, read_error = Map.empty\<rparr>"

definition disk :: "string \<Rightarrow> world" where
  "disk data =
     \<lparr>files = [''users.json'' \<mapsto> data], open_error = Map.empty, read_error = Map.empty\<rparr>"

definition buffer :: writer where
  "buffer = \<lparr>written = [], write_error = Map.empty\<rparr>"

text \<open>The records and the texts of the scenario of the specification.\<close>

definition user1 :: User where
  "user1 = \<lparr>ID = ''1'', Email = ''a@b.com'', Age = 34\<rparr>"

definition user2 :: User where
  "user2 = \<lparr>ID = ''2'', Email = ''c@d.com'', Age = 50\<rparr>"

definition item1 :: string where
  \<open>item1 = ''{"id":"1","email":"a@b.com","age":34}''\<close>

definition item1_again :: string where
  \<open>item1_again = ''{"id":"1","email":"c@d.com","age":50}''\<close>

definition item2 :: string where
  \<open>item2 = ''{"id":"2","email":"c@d.com","age":50}''\<close>

definition file1 :: string where
  \<open>file1 = ''[{"id":"1","email":"a@b.com","age":34}]''\<close>

definition file12 :: string where
  \<open>file12 = ''[{"id":"1","email":"a@b.com","age":34},{"id":"2","email":"c@d.com","age":50}]''\<close>

text \<open>A file in which two records share an id, and what is left of it without the first.\<close>

definition file11 :: string where
  \<open>file11 = ''[{"id":"1","email":"a@b.com","age":34},{"id":"1","email":"c@d.com","age":50}]''\<close>

definition file1_again :: string where
  \<open>file1_again = ''[{"id":"1","email":"c@d.com","age":50}]''\<close>

text \<open>A file system on which \<^verbatim>\<open>users.json\<close> opens and cannot be read.\<close>

definition unreadable :: world where
  "unreadable =
     \<lparr>files = [''users.json'' \<mapsto> file1], open_error = Map.empty,
      read_error = [''users.json'' \<mapsto> IOError ''read users.json: input/output error'']\<rparr>"

section \<open>The loops and the library calls\<close>

lemmas codec_defs = parse_json_def is_space_def is_digit_def scan_number_def scan_sign_def
  scan_frac_def scan_exp_def scan_word_def unescape_def
  Unmarshal_Users_def Unmarshal_User_def decode_Users_def decode_User_def zero_User_def
  string_field_def int_field_def int_of_number_def names_field_def lower_def
  encode_Users_def encode_User_def encode_string_def encode_char_def encode_int_def hex_digit_def
  encoding_json_def

lemmas example_defs = parseArgs_def arg_def no_files_def disk_def buffer_def user1_def user2_def
  item1_def item1_again_def item2_def file1_def file12_def file11_def file1_again_def

lemma addItem_range_iff: "addItem_range xs user \<longleftrightarrow> ID user \<in> ID ` set xs"
  by (induction xs) auto

lemma findUserById_range_None: "findUserById_range xs uid = None \<longleftrightarrow> uid \<notin> ID ` set xs"
  by (induction xs) auto

lemma findUserById_range_first:
  "uid \<notin> ID ` set pre \<Longrightarrow> ID u = uid \<Longrightarrow> findUserById_range (pre @ u # post) uid = Some u"
  by (induction pre) auto

lemma removeUser_range_None: "removeUser_range i xs uid = None \<longleftrightarrow> uid \<notin> ID ` set xs"
  by (induction xs arbitrary: i) auto

lemma removeUser_range_first:
  "uid \<notin> ID ` set pre \<Longrightarrow> ID u = uid \<Longrightarrow>
   removeUser_range i (pre @ u # post) uid = Some (i + length pre)"
  by (induction pre arbitrary: i) auto

lemma delete_at_first: "elems s = pre @ u # post \<Longrightarrow> delete_at s (length pre) = Some (pre @ post)"
  by (simp add: delete_at_def)

lemma append_slice_elems: "append_slice s x = Some (elems s @ [x])"
  by (simp add: append_slice_def)

lemma OpenFile_existing:
  "open_error w name = None \<Longrightarrow> files w name = Some data \<Longrightarrow> OpenFile w name = (w, Inr (File name))"
  by (simp add: OpenFile_def)

lemma OpenFile_frame:
  "fst (OpenFile w name) = w \<or>
   files w name = None \<and> fst (OpenFile w name) = w\<lparr>files := (files w)(name \<mapsto> [])\<rparr>"
  by (simp add: OpenFile_def split: option.splits)

lemma Perform_opened:
  assumes "arg args ''fileName'' = name" and "name \<noteq> []" and "arg args ''operation'' = op"
    and "op \<noteq> []" and "open_error w name = None" and "w' = fst (OpenFile w name)"
  shows "Perform j w args wr =
     (if op = ''add'' then
        (if arg args ''item'' = [] then (w', wr, Some ErrItemFlagMissing)
         else (w', addItem j w' (File name) wr (arg args ''item'')))
      else if op = ''list'' then (w', listItems j w' (File name) wr)
      else if op = ''findById'' then
        (if arg args ''id'' = [] then (w', wr, Some ErrIDFlagMissing)
         else (w', findUserById j w' (File name) wr (arg args ''id'')))
      else if op = ''remove'' then
        (if arg args ''id'' = [] then (w', wr, Some ErrIDFlagMissing)
         else (w', removeUser j w' (File name) wr (arg args ''id'')))
      else (w', wr, Some (Errorf (''Operation '' @ op @ '' not allowed!''))))"
proof -
  have "OpenFile w name = (w', Inr (File name))"
    using assms(5,6) by (simp add: OpenFile_def split: option.splits)
  then show ?thesis
    using assms(1-4) by (simp add: Perform_def Let_def)
qed

lemma Perform_part0_opened:
  assumes "arg args ''fileName'' = name" and "name \<noteq> []" and "arg args ''operation'' = op"
    and "op \<noteq> []" and "open_error w name = None" and "w' = fst (OpenFile w name)"
  shows "Perform_part0 j w args wr =
     (if op = ''add'' then
        (if arg args ''item'' = [] then (w', wr, Some ErrItemFlagMissing)
         else (w', addItem_part0 j w' (File name) wr (arg args ''item'')))
      else if op = ''list'' then (w', listItems j w' (File name) wr)
      else if op = ''findById'' then
        (if arg args ''id'' = [] then (w', wr, Some ErrIDFlagMissing)
         else (w', findUserById j w' (File name) wr (arg args ''id'')))
      else if op = ''remove'' then
        (if arg args ''id'' = [] then (w', wr, Some ErrIDFlagMissing)
         else (w', removeUser_part0 j w' (File name) wr (arg args ''id'')))
      else (w', wr, Some (Errorf (''Operation '' @ op @ '' not allowed!''))))"
proof -
  have "OpenFile w name = (w', Inr (File name))"
    using assms(5,6) by (simp add: OpenFile_def split: option.splits)
  then show ?thesis
    using assms(1-4) by (simp add: Perform_part0_def Let_def)
qed

lemma Perform_frame:
  "fst (Perform j w args wr) = w \<or> fst (Perform j w args wr) = fst (OpenFile w (arg args ''fileName''))"
  "fst (Perform_part0 j w args wr) = w \<or>
   fst (Perform_part0 j w args wr) = fst (OpenFile w (arg args ''fileName''))"
  by (auto simp add: Perform_def Perform_part0_def Let_def split: prod.splits sum.splits)

lemma error_leaves_writer:
  assumes "write_error wr = Map.empty"
  shows "snd (addItem j w f wr item) \<noteq> None \<Longrightarrow> fst (addItem j w f wr item) = wr"
    and "snd (listItems j w f wr) \<noteq> None \<Longrightarrow> fst (listItems j w f wr) = wr"
    and "snd (findUserById j w f wr uid) \<noteq> None \<Longrightarrow> fst (findUserById j w f wr uid) = wr"
    and "snd (removeUser j w f wr uid) \<noteq> None \<Longrightarrow> fst (removeUser j w f wr uid) = wr"
    and "snd (addItem_part0 j w f wr item) \<noteq> None \<Longrightarrow> fst (addItem_part0 j w f wr item) = wr"
    and "snd (removeUser_part0 j w f wr uid) \<noteq> None \<Longrightarrow> fst (removeUser_part0 j w f wr uid) = wr"
  using assms
  by (auto simp add: addItem_def listItems_def findUserById_def removeUser_def addItem_part0_def
      removeUser_part0_def Write_def Let_def split: sum.splits option.splits if_splits)

lemma Perform_world:
  "fst (Perform j w args wr) = w \<or>
   fst (Perform j w args wr) = w\<lparr>files := (files w)(arg args ''fileName'' \<mapsto> [])\<rparr>"
  "fst (Perform_part0 j w args wr) = w \<or>
   fst (Perform_part0 j w args wr) = w\<lparr>files := (files w)(arg args ''fileName'' \<mapsto> [])\<rparr>"
  using Perform_frame [of j w args wr] OpenFile_frame [of w "arg args ''fileName''"]
  by auto

lemma Perform_keeps_empty:
  assumes "files w p = None \<or> files w p = Some []"
  shows "files (fst (Perform j w args wr)) p = None \<or> files (fst (Perform j w args wr)) p = Some []"
    and "files (fst (Perform_part0 j w args wr)) p = None \<or>
         files (fst (Perform_part0 j w args wr)) p = Some []"
    and "open_error (fst (Perform j w args wr)) = open_error w"
    and "read_error (fst (Perform j w args wr)) = read_error w"
    and "open_error (fst (Perform_part0 j w args wr)) = open_error w"
    and "read_error (fst (Perform_part0 j w args wr)) = read_error w"
proof -
  show "files (fst (Perform j w args wr)) p = None \<or> files (fst (Perform j w args wr)) p = Some []"
    using Perform_world(1) [of j w args wr] assms by (elim disjE) simp_all
  show "files (fst (Perform_part0 j w args wr)) p = None \<or>
      files (fst (Perform_part0 j w args wr)) p = Some []"
    using Perform_world(2) [of j w args wr] assms by (elim disjE) simp_all
  show "open_error (fst (Perform j w args wr)) = open_error w"
    using Perform_world(1) [of j w args wr] by (elim disjE) simp_all
  show "read_error (fst (Perform j w args wr)) = read_error w"
    using Perform_world(1) [of j w args wr] by (elim disjE) simp_all
  show "open_error (fst (Perform_part0 j w args wr)) = open_error w"
    using Perform_world(2) [of j w args wr] by (elim disjE) simp_all
  show "read_error (fst (Perform_part0 j w args wr)) = read_error w"
    using Perform_world(2) [of j w args wr] by (elim disjE) simp_all
qed

lemma in_turn_keeps_empty:
  assumes "files w p = None \<or> files w p = Some []"
  shows "(files (in_turn (Perform j) w runs) p = None \<or> files (in_turn (Perform j) w runs) p = Some [])
       \<and> open_error (in_turn (Perform j) w runs) = open_error w
       \<and> read_error (in_turn (Perform j) w runs) = read_error w"
    and "(files (in_turn (Perform_part0 j) w runs) p = None \<or>
         files (in_turn (Perform_part0 j) w runs) p = Some [])
       \<and> open_error (in_turn (Perform_part0 j) w runs) = open_error w
       \<and> read_error (in_turn (Perform_part0 j) w runs) = read_error w"
  using assms
proof (induction runs arbitrary: w)
  case Nil
  {
    case 1
    then show ?case by simp
  next
    case 2
    then show ?case by simp
  }
next
  case (Cons r runs)
  obtain args wr where r: "r = (args, wr)"
    by (cases r)
  {
    case 1
    show ?case
      using Cons.IH(1) [OF Perform_keeps_empty(1) [OF 1, of j args wr]]
        Perform_keeps_empty(3,4) [OF 1, of j args wr]
      by (simp add: r)
  next
    case 2
    show ?case
      using Cons.IH(2) [OF Perform_keeps_empty(2) [OF 2, of j args wr]]
        Perform_keeps_empty(5,6) [OF 2, of j args wr]
      by (simp add: r)
  }
qed

lemma list_on_empty:
  assumes "files w name = None \<or> files w name = Some []"
    and "open_error w name = None" and "read_error w name = None"
    and "write_error wr = Map.empty"
    and "arg args ''fileName'' = name" and "name \<noteq> []" and "arg args ''operation'' = ''list''"
  shows "snd (Perform j w args wr) = (wr, None)"
    and "snd (Perform_part0 j w args wr) = (wr, None)"
proof -
  have rd: "ReadAll (fst (OpenFile w name)) (File name) = Inr []"
    using assms(1,2,3) by (auto simp add: OpenFile_def ReadAll_def)
  show "snd (Perform j w args wr) = (wr, None)"
    using assms(4)
    by (simp add: Perform_opened [OF assms(5,6,7) _ assms(2) refl] listItems_def rd Write_def)
  show "snd (Perform_part0 j w args wr) = (wr, None)"
    using assms(4)
    by (simp add: Perform_part0_opened [OF assms(5,6,7) _ assms(2) refl] listItems_def rd Write_def)
qed

section \<open>The examples, run\<close>

lemma parseArgs_arg:
  "arg (parseArgs idFlag operationFlag itemFlag fileNameFlag) ''id'' = idFlag"
  "arg (parseArgs idFlag operationFlag itemFlag fileNameFlag) ''operation'' = operationFlag"
  "arg (parseArgs idFlag operationFlag itemFlag fileNameFlag) ''item'' = itemFlag"
  "arg (parseArgs idFlag operationFlag itemFlag fileNameFlag) ''fileName'' = fileNameFlag"
  by (simp_all add: parseArgs_def arg_def)

lemma disk_io:
  "open_error (disk data) name = None" "read_error (disk data) name = None"
  "files (disk data) ''users.json'' = Some data"
  "OpenFile (disk data) ''users.json'' = (disk data, Inr (File ''users.json''))"
  "ReadAll (disk data) (File ''users.json'') = Inr data"
  by (simp_all add: disk_def OpenFile_def ReadAll_def)

lemma no_files_io:
  "open_error no_files name = None" "read_error no_files name = None"
  "files no_files name = None"
  "OpenFile no_files ''users.json'' = (disk [], Inr (File ''users.json''))"
  by (simp_all add: disk_def no_files_def OpenFile_def)

lemma buffer_io: "write_error buffer = Map.empty" "written buffer = []"
  "Write buffer p = (buffer\<lparr>written := p\<rparr>, None)"
  by (simp_all add: buffer_def Write_def)

lemma Unmarshal_empty:
  "UnmarshalUsers encoding_json [] = Inl (JSONError ''json: syntax error'')"
  by (simp add: codec_defs)

section \<open>Dispatch on the operation\<close>

text \<open>
  C7. For every operation string other than \<^verbatim>\<open>add\<close>, \<^verbatim>\<open>list\<close>, \<^verbatim>\<open>findById\<close> and
  \<^verbatim>\<open>remove\<close> and other than the empty string, \<^verbatim>\<open>Perform\<close> fails with the error
  \<^verbatim>\<open>Operation {value} not allowed!\<close>, where the value is the operation string, and writes
  nothing to the output. The switch is reached once the file name has been found non-empty
  and the file has been opened (and created, if it was not there); this holds in both
  versions.
\<close>

theorem Perform_operation_not_allowed:
  assumes "arg args ''fileName'' \<noteq> []"
    and "open_error w (arg args ''fileName'') = None"
    and "arg args ''operation'' \<notin> {[], ''add'', ''list'', ''findById'', ''remove''}"
  shows "Perform j w args wr =
           (fst (OpenFile w (arg args ''fileName'')), wr,
            Some (Errorf (''Operation '' @ arg args ''operation'' @ '' not allowed!'')))
       \<and> Perform_part0 j w args wr =
           (fst (OpenFile w (arg args ''fileName'')), wr,
            Some (Errorf (''Operation '' @ arg args ''operation'' @ '' not allowed!'')))
       \<and> Error (Errorf (''Operation '' @ arg args ''operation'' @ '' not allowed!'')) =
           ''Operation '' @ arg args ''operation'' @ '' not allowed!''"
proof -
  have op: "arg args ''operation'' \<noteq> []" "arg args ''operation'' \<noteq> ''add''"
    "arg args ''operation'' \<noteq> ''list''" "arg args ''operation'' \<noteq> ''findById''"
    "arg args ''operation'' \<noteq> ''remove''"
    using assms(3) by auto
  show ?thesis
    using op
    by (simp add: Perform_opened [OF refl assms(1) refl op(1) assms(2) refl]
        Perform_part0_opened [OF refl assms(1) refl op(1) assms(2) refl])
qed

theorem Perform_operation_not_allowed_witness:
  "Perform encoding_json no_files (parseArgs [] ''delete'' [] ''users.json'') buffer =
     (disk [], buffer, Some (Errorf ''Operation delete not allowed!''))
   \<and> Perform_part0 encoding_json no_files (parseArgs [] ''delete'' [] ''users.json'') buffer =
     (disk [], buffer, Some (Errorf ''Operation delete not allowed!''))"
  using Perform_operation_not_allowed
          [of "parseArgs [] ''delete'' [] ''users.json''" no_files encoding_json buffer]
  by (simp add: example_defs OpenFile_def)

section \<open>Missing flags\<close>

text \<open>
  C8. Each required flag has an error of its own, and the four are distinct values with
  distinct messages. \<^verbatim>\<open>Perform\<close> returns the error of \<^verbatim>\<open>-fileName\<close> when the file name
  is empty; that of \<^verbatim>\<open>-operation\<close> when the operation is empty (the file name being
  there); that of \<^verbatim>\<open>-item\<close> when the item is empty for \<^verbatim>\<open>add\<close>, and that of \<^verbatim>\<open>-id\<close>
  when the id is empty for \<^verbatim>\<open>findById\<close> or \<^verbatim>\<open>remove\<close> (the file name being there and the
  file opened, which is when the switch is reached). In each case no operation runs and
  nothing is written to the output; the two versions agree.
\<close>

theorem missing_flag_errors:
  "(arg args ''fileName'' = [] \<longrightarrow>
      Perform j w args wr = (w, wr, Some ErrFileNameFlagMissing))
   \<and> (arg args ''fileName'' \<noteq> [] \<and> arg args ''operation'' = [] \<longrightarrow>
      Perform j w args wr = (w, wr, Some ErrOperationFlagMissing))
   \<and> (arg args ''fileName'' \<noteq> [] \<and> open_error w (arg args ''fileName'') = None \<and>
      arg args ''operation'' = ''add'' \<and> arg args ''item'' = [] \<longrightarrow>
      Perform j w args wr = (fst (OpenFile w (arg args ''fileName'')), wr, Some ErrItemFlagMissing))
   \<and> (arg args ''fileName'' \<noteq> [] \<and> open_error w (arg args ''fileName'') = None \<and>
      (arg args ''operation'' = ''findById'' \<or> arg args ''operation'' = ''remove'') \<and>
      arg args ''id'' = [] \<longrightarrow>
      Perform j w args wr = (fst (OpenFile w (arg args ''fileName'')), wr, Some ErrIDFlagMissing))
   \<and> (arg args ''fileName'' = [] \<or> arg args ''operation'' = [] \<or>
      (open_error w (arg args ''fileName'') = None \<and>
       (arg args ''operation'' = ''add'' \<and> arg args ''item'' = [] \<or>
        (arg args ''operation'' = ''findById'' \<or> arg args ''operation'' = ''remove'') \<and>
        arg args ''id'' = [])) \<longrightarrow>
      Perform_part0 j w args wr = Perform j w args wr)
   \<and> distinct [ErrFileNameFlagMissing, ErrOperationFlagMissing, ErrItemFlagMissing, ErrIDFlagMissing]
   \<and> distinct (map Error
        [ErrFileNameFlagMissing, ErrOperationFlagMissing, ErrItemFlagMissing, ErrIDFlagMissing])"
proof -
  have opened: "Perform j w args wr =
      (fst (OpenFile w (arg args ''fileName'')), wr,
       Some (if arg args ''operation'' = ''add'' then ErrItemFlagMissing else ErrIDFlagMissing))
    \<and> Perform_part0 j w args wr = Perform j w args wr"
    if "arg args ''fileName'' \<noteq> []" "open_error w (arg args ''fileName'') = None"
      "arg args ''operation'' = ''add'' \<and> arg args ''item'' = [] \<or>
       (arg args ''operation'' = ''findById'' \<or> arg args ''operation'' = ''remove'') \<and>
       arg args ''id'' = []"
  proof -
    have op: "arg args ''operation'' \<noteq> []"
      using that(3) by auto
    show ?thesis
      using that(3)
      by (auto simp add: Perform_opened [OF refl that(1) refl op that(2) refl]
          Perform_part0_opened [OF refl that(1) refl op that(2) refl])
  qed
  have early: "Perform_part0 j w args wr = Perform j w args wr"
    if "arg args ''fileName'' = [] \<or> arg args ''operation'' = []"
    using that by (auto simp add: Perform_def Perform_part0_def Let_def)
  have a: "arg args ''fileName'' = [] \<longrightarrow>
      Perform j w args wr = (w, wr, Some ErrFileNameFlagMissing)"
    by (simp add: Perform_def)
  have b: "arg args ''fileName'' \<noteq> [] \<and> arg args ''operation'' = [] \<longrightarrow>
      Perform j w args wr = (w, wr, Some ErrOperationFlagMissing)"
    by (simp add: Perform_def)
  have c: "arg args ''fileName'' \<noteq> [] \<and> open_error w (arg args ''fileName'') = None \<and>
      arg args ''operation'' = ''add'' \<and> arg args ''item'' = [] \<longrightarrow>
      Perform j w args wr = (fst (OpenFile w (arg args ''fileName'')), wr, Some ErrItemFlagMissing)"
    using opened by simp
  have d: "arg args ''fileName'' \<noteq> [] \<and> open_error w (arg args ''fileName'') = None \<and>
      (arg args ''operation'' = ''findById'' \<or> arg args ''operation'' = ''remove'') \<and>
      arg args ''id'' = [] \<longrightarrow>
      Perform j w args wr = (fst (OpenFile w (arg args ''fileName'')), wr, Some ErrIDFlagMissing)"
    using opened by auto
  have e: "arg args ''fileName'' = [] \<or> arg args ''operation'' = [] \<or>
      (open_error w (arg args ''fileName'') = None \<and>
       (arg args ''operation'' = ''add'' \<and> arg args ''item'' = [] \<or>
        (arg args ''operation'' = ''findById'' \<or> arg args ''operation'' = ''remove'') \<and>
        arg args ''id'' = [])) \<longrightarrow>
      Perform_part0 j w args wr = Perform j w args wr"
    using opened early by blast
  have f: "distinct [ErrFileNameFlagMissing, ErrOperationFlagMissing, ErrItemFlagMissing, ErrIDFlagMissing]"
    by simp
  have g: "distinct (map Error
        [ErrFileNameFlagMissing, ErrOperationFlagMissing, ErrItemFlagMissing, ErrIDFlagMissing])"
    by simp
  show ?thesis
    using a b c d e f g by blast
qed

theorem missing_flag_errors_witness:
  "Perform encoding_json (disk file1) (parseArgs [] ''add'' item2 []) buffer =
     (disk file1, buffer, Some ErrFileNameFlagMissing)
   \<and> Perform encoding_json (disk file1) (parseArgs [] [] item2 ''users.json'') buffer =
     (disk file1, buffer, Some ErrOperationFlagMissing)
   \<and> Perform encoding_json (disk file1) (parseArgs [] ''add'' [] ''users.json'') buffer =
     (disk file1, buffer, Some ErrItemFlagMissing)
   \<and> Perform encoding_json (disk file1) (parseArgs [] ''remove'' [] ''users.json'') buffer =
     (disk file1, buffer, Some ErrIDFlagMissing)
   \<and> Perform_part0 encoding_json (disk file1) (parseArgs [] ''findById'' [] ''users.json'') buffer =
     (disk file1, buffer, Some ErrIDFlagMissing)"
  using missing_flag_errors [of "parseArgs [] ''add'' item2 []" encoding_json "disk file1" buffer]
    missing_flag_errors [of "parseArgs [] [] item2 ''users.json''" encoding_json "disk file1" buffer]
    missing_flag_errors [of "parseArgs [] ''add'' [] ''users.json''" encoding_json "disk file1" buffer]
    missing_flag_errors [of "parseArgs [] ''remove'' [] ''users.json''" encoding_json "disk file1" buffer]
    missing_flag_errors [of "parseArgs [] ''findById'' [] ''users.json''" encoding_json "disk file1" buffer]
  by (simp add: parseArgs_arg disk_io)

section \<open>Adding a record\<close>

text \<open>
  C1. For every content of the backing file that decodes as an array of records: when one of
  them has the id of the new record, \<^verbatim>\<open>add\<close> writes \<^verbatim>\<open>Item with id {id} already exists\<close>
  and the stored records are unchanged; when none has, the new record is appended to the end of
  the sequence and the encoding of the whole sequence is written. A text that decodes is not
  empty; the file and the writer are taken to work. This holds in both versions, and in both
  the file system is left as it was.
\<close>

theorem add_collision_or_append:
  assumes args: "arg args ''fileName'' = name" "name \<noteq> []" "arg args ''operation'' = ''add''"
      "arg args ''item'' = item" "item \<noteq> []"
    and io: "open_error w name = None" "read_error w name = None" "write_error wr = Map.empty"
    and content: "files w name = Some data" "data \<noteq> []" "UnmarshalUsers j data = Inr itemArray"
    and new: "UnmarshalUser j item = Inr user"
  shows "(ID user \<in> ID ` set (elems itemArray) \<longrightarrow>
            Perform j w args wr =
              (w, wr\<lparr>written := written wr @ ''Item with id '' @ ID user @ '' already exists''\<rparr>, None)
          \<and> Perform_part0 j w args wr =
              (w, wr\<lparr>written := written wr @ ''Item with id '' @ ID user @ '' already exists''\<rparr>, None))
       \<and> (ID user \<notin> ID ` set (elems itemArray) \<longrightarrow>
            MarshalUsers j (Some (elems itemArray @ [user])) = Inr out \<longrightarrow>
            Perform j w args wr = (w, wr\<lparr>written := written wr @ out\<rparr>, None)
          \<and> Perform_part0 j w args wr = (w, wr\<lparr>written := written wr @ out\<rparr>, None))"
proof -
  have opened: "fst (OpenFile w name) = w"
    using io(1) content(1) by (simp add: OpenFile_existing)
  have rd: "ReadAll w (File name) = Inr data"
    using io(2) content(1) by (simp add: ReadAll_def)
  have P: "Perform j w args wr = (w, addItem j w (File name) wr item)"
    using args opened by (simp add: Perform_opened [OF args(1,2,3) _ io(1) refl])
  have P0: "Perform_part0 j w args wr = (w, addItem_part0 j w (File name) wr item)"
    using args opened by (simp add: Perform_part0_opened [OF args(1,2,3) _ io(1) refl])
  show ?thesis
    using content(2,3) new io(3) rd
    by (simp add: P P0 addItem_def addItem_part0_def addItem_range_iff append_slice_elems Write_def)
qed

theorem add_collision_or_append_witness:
  "Perform encoding_json (disk file1) (parseArgs [] ''add'' item1_again ''users.json'') buffer =
     (disk file1, buffer\<lparr>written := ''Item with id 1 already exists''\<rparr>, None)
   \<and> Perform_part0 encoding_json (disk file1) (parseArgs [] ''add'' item1_again ''users.json'') buffer =
     (disk file1, buffer\<lparr>written := ''Item with id 1 already exists''\<rparr>, None)
   \<and> Perform encoding_json (disk file1) (parseArgs [] ''add'' item2 ''users.json'') buffer =
     (disk file1, buffer\<lparr>written := file12\<rparr>, None)
   \<and> Perform_part0 encoding_json (disk file1) (parseArgs [] ''add'' item2 ''users.json'') buffer =
     (disk file1, buffer\<lparr>written := file12\<rparr>, None)"
proof -
  have old: "UnmarshalUsers encoding_json file1 = Inr (Some [user1])"
    by (simp add: codec_defs example_defs)
  have again: "UnmarshalUser encoding_json item1_again = Inr (user1\<lparr>Email := ''c@d.com'', Age := 50\<rparr>)"
    by (simp add: codec_defs example_defs)
  have new: "UnmarshalUser encoding_json item2 = Inr user2"
    by (simp add: codec_defs example_defs)
  have out: "MarshalUsers encoding_json (Some (elems (Some [user1]) @ [user2])) = Inr file12"
    by (simp add: codec_defs example_defs encode_nat.simps)
  have a: "arg (parseArgs [] ''add'' item ''users.json'') ''fileName'' = ''users.json''"
    "arg (parseArgs [] ''add'' item ''users.json'') ''operation'' = ''add''"
    "arg (parseArgs [] ''add'' item ''users.json'') ''item'' = item" for item
    by (simp_all add: parseArgs_def arg_def)
  have ne: "item1_again \<noteq> []" "item2 \<noteq> []" "file1 \<noteq> []"
    by (simp_all add: example_defs)
  have d: "open_error (disk file1) ''users.json'' = None" "read_error (disk file1) ''users.json'' = None"
    "files (disk file1) ''users.json'' = Some file1" "write_error buffer = Map.empty"
    by (simp_all add: disk_def buffer_def)
  have w: "written buffer = []"
    by (simp add: buffer_def)
  show ?thesis
    using add_collision_or_append [OF a(1) _ a(2) a(3) ne(1) d(1) d(2) d(4) d(3) ne(3) old again]
      add_collision_or_append [OF a(1) _ a(2) a(3) ne(2) d(1) d(2) d(4) d(3) ne(3) old new, of file12]
      out w
    by (simp add: user1_def user2_def)
qed

text \<open>
  X4. \<^verbatim>\<open>add\<close> of \<^verbatim>\<open>main.go\<close> on a backing file that is empty, or that is not there and
  is created empty: the text of the item is written to the output as it was given, whatever
  it is, and no error is returned. Neither the codec nor the content of the item plays a part.
\<close>

theorem add_main_empty_file:
  assumes args: "arg args ''fileName'' = name" "name \<noteq> []" "arg args ''operation'' = ''add''"
      "arg args ''item'' = item" "item \<noteq> []"
    and io: "open_error w name = None" "read_error w name = None" "write_error wr = Map.empty"
    and content: "files w name = None \<or> files w name = Some []"
  shows "Perform j w args wr =
           (w\<lparr>files := (files w)(name \<mapsto> [])\<rparr>, wr\<lparr>written := written wr @ item\<rparr>, None)"
proof -
  have opened: "fst (OpenFile w name) = w\<lparr>files := (files w)(name \<mapsto> [])\<rparr>"
    using io(1) content by (auto simp add: OpenFile_def map_upd_triv)
  have rd: "ReadAll (w\<lparr>files := (files w)(name \<mapsto> [])\<rparr>) (File name) = Inr []"
    using io(2) by (simp add: ReadAll_def)
  show ?thesis
    using args io(3)
    by (simp add: Perform_opened [OF args(1,2,3) _ io(1) refl] opened addItem_def rd Write_def)
qed

theorem add_main_empty_file_witness:
  "Perform encoding_json no_files (parseArgs [] ''add'' ''not json'' ''users.json'') buffer =
     (disk [], buffer\<lparr>written := ''not json''\<rparr>, None)"
  using add_main_empty_file [OF parseArgs_arg(4) _ parseArgs_arg(2) parseArgs_arg(3) _
      no_files_io(1) no_files_io(2) buffer_io(1), where j = encoding_json]
  by (simp add: no_files_io buffer_io) (simp add: no_files_def disk_def)

text \<open>
  C6. The scenario of the specification: the backing file is empty and \<^verbatim>\<open>add\<close> is given
  the text of the record with id 1. The claim is that the output is that object wrapped in
  an array of one element, which is \<open>file1\<close>, the encoding of the slice that holds the
  record. In \<^verbatim>\<open>main.go\<close> the output is the text of the item as it was given, with no
  brackets; in \<^verbatim>\<open>part_000\<close> the call fails in the decoder and nothing is written.
\<close>

theorem add_to_empty_file_not_an_array:
  "Perform encoding_json (disk []) (parseArgs [] ''add'' item1 ''users.json'') buffer =
     (disk [], buffer\<lparr>written := item1\<rparr>, None)
   \<and> (\<exists>msg. Perform_part0 encoding_json (disk []) (parseArgs [] ''add'' item1 ''users.json'') buffer =
     (disk [], buffer, Some (JSONError msg)))
   \<and> MarshalUsers encoding_json (Some [user1]) = Inr file1
   \<and> UnmarshalUser encoding_json item1 = Inr user1
   \<and> item1 \<noteq> file1"
proof -
  have ne: "item1 \<noteq> []"
    by (simp add: item1_def)
  have add: "addItem encoding_json (disk []) (File ''users.json'') buffer item1 =
      (buffer\<lparr>written := item1\<rparr>, None)"
    by (simp add: addItem_def disk_io buffer_io)
  have add0: "addItem_part0 encoding_json (disk []) (File ''users.json'') buffer item1 =
      (buffer, Some (JSONError ''json: syntax error''))"
    by (simp add: addItem_part0_def disk_io Unmarshal_empty)
  have new: "UnmarshalUser encoding_json item1 = Inr user1"
    by (simp add: codec_defs example_defs)
  have out: "MarshalUsers encoding_json (Some [user1]) = Inr file1"
    by (simp add: codec_defs example_defs encode_nat.simps)
  have diff: "item1 \<noteq> file1"
    by (simp add: item1_def file1_def)
  show ?thesis
    using ne
    by (simp add: Perform_def Perform_part0_def parseArgs_arg disk_io add add0 new out diff)
qed




section \<open>Finding a record\<close>

text \<open>
  C2. For every id: \<^verbatim>\<open>findById\<close> on an empty file writes nothing; on a file that is not
  empty and decodes, with no record of that id, it writes nothing; on a file that decodes
  and holds a record of that id it writes the encoding of the first such record and nothing
  else. The file and the writer are taken to work. The two versions agree on this operation.
\<close>

theorem findById_output:
  assumes args: "arg args ''fileName'' = name" "name \<noteq> []" "arg args ''operation'' = ''findById''"
      "arg args ''id'' = uid" "uid \<noteq> []"
    and io: "open_error w name = None" "read_error w name = None" "write_error wr = Map.empty"
  shows "(files w name = Some [] \<longrightarrow> Perform j w args wr = (w, wr, None))
       \<and> (files w name = Some data \<and> data \<noteq> [] \<and> UnmarshalUsers j data = Inr item \<and>
            uid \<notin> ID ` set (elems item) \<longrightarrow>
          Perform j w args wr = (w, wr, None))
       \<and> (files w name = Some data \<and> data \<noteq> [] \<and> UnmarshalUsers j data = Inr item \<and>
            elems item = pre @ user # post \<and> uid \<notin> ID ` set pre \<and> ID user = uid \<and>
            MarshalUser j user = Inr out \<longrightarrow>
          Perform j w args wr = (w, wr\<lparr>written := written wr @ out\<rparr>, None))
       \<and> Perform_part0 j w args wr = Perform j w args wr"
proof -
  have P: "Perform j w args wr =
      (fst (OpenFile w name), findUserById j (fst (OpenFile w name)) (File name) wr uid)"
    using args by (simp add: Perform_opened [OF args(1,2,3) _ io(1) refl])
  have P0: "Perform_part0 j w args wr =
      (fst (OpenFile w name), findUserById j (fst (OpenFile w name)) (File name) wr uid)"
    using args by (simp add: Perform_part0_opened [OF args(1,2,3) _ io(1) refl])
  have opened: "fst (OpenFile w name) = w" if "files w name = Some d" for d
    using io(1) that by (simp add: OpenFile_existing)
  have rd: "ReadAll w (File name) = Inr d" if "files w name = Some d" for d
    using io(2) that by (simp add: ReadAll_def)
  have empty: "Perform j w args wr = (w, wr, None)" if "files w name = Some []"
    using that io(3) by (simp add: P opened [OF that] findUserById_def rd [OF that] Write_def)
  have missing: "Perform j w args wr = (w, wr, None)"
    if "files w name = Some data" "data \<noteq> []" "UnmarshalUsers j data = Inr item"
      "uid \<notin> ID ` set (elems item)"
  proof -
    have "findUserById_range (elems item) uid = None"
      using that(4) by (simp add: findUserById_range_None)
    then show ?thesis
      using that(2,3) io(3)
      by (simp add: P opened [OF that(1)] findUserById_def rd [OF that(1)] Write_def)
  qed
  have found: "Perform j w args wr = (w, wr\<lparr>written := written wr @ out\<rparr>, None)"
    if "files w name = Some data" "data \<noteq> []" "UnmarshalUsers j data = Inr item"
      "elems item = pre @ user # post" "uid \<notin> ID ` set pre" "ID user = uid"
      "MarshalUser j user = Inr out"
  proof -
    have "findUserById_range (elems item) uid = Some user"
      using that(4,5,6) by (simp add: findUserById_range_first)
    then show ?thesis
      using that(2,3,7) io(3)
      by (simp add: P opened [OF that(1)] findUserById_def rd [OF that(1)] Write_def)
  qed
  have same: "Perform_part0 j w args wr = Perform j w args wr"
    by (simp add: P P0)
  show ?thesis
    using empty missing found same by blast
qed

theorem findById_output_witness:
  "Perform encoding_json (disk []) (parseArgs ''1'' ''findById'' [] ''users.json'') buffer =
     (disk [], buffer, None)
   \<and> Perform encoding_json (disk file11) (parseArgs ''2'' ''findById'' [] ''users.json'') buffer =
     (disk file11, buffer, None)
   \<and> Perform encoding_json (disk file11) (parseArgs ''1'' ''findById'' [] ''users.json'') buffer =
     (disk file11, buffer\<lparr>written := item1\<rparr>, None)
   \<and> Perform_part0 encoding_json (disk file11) (parseArgs ''1'' ''findById'' [] ''users.json'') buffer =
     (disk file11, buffer\<lparr>written := item1\<rparr>, None)"
proof -
  have old: "UnmarshalUsers encoding_json file11 = Inr (Some [user1, user1\<lparr>Email := ''c@d.com'', Age := 50\<rparr>])"
    by (simp add: codec_defs example_defs)
  have out: "MarshalUser encoding_json user1 = Inr item1"
    by (simp add: codec_defs example_defs encode_nat.simps)
  have a: "arg (parseArgs uid ''findById'' [] ''users.json'') ''fileName'' = ''users.json''"
    "arg (parseArgs uid ''findById'' [] ''users.json'') ''operation'' = ''findById''"
    "arg (parseArgs uid ''findById'' [] ''users.json'') ''id'' = uid" for uid
    by (simp_all add: parseArgs_def arg_def)
  have d: "open_error (disk data) ''users.json'' = None" "read_error (disk data) ''users.json'' = None"
    "files (disk data) ''users.json'' = Some data" "write_error buffer = Map.empty" for data
    by (simp_all add: disk_def buffer_def)
  have ne: "file11 \<noteq> []"
    by (simp add: example_defs)
  have w: "written buffer = []"
    by (simp add: buffer_def)
  show ?thesis
    using findById_output [OF a(1) _ a(2) a(3) _ d(1) d(2) d(4), of "''1''" "[]" encoding_json]
      findById_output [OF a(1) _ a(2) a(3) _ d(1) d(2) d(4), of "''2''" file11 encoding_json
        file11 "Some [user1, user1\<lparr>Email := ''c@d.com'', Age := 50\<rparr>]"]
      findById_output [OF a(1) _ a(2) a(3) _ d(1) d(2) d(4), of "''1''" file11 encoding_json
        file11 "Some [user1, user1\<lparr>Email := ''c@d.com'', Age := 50\<rparr>]" "[]" user1
        "[user1\<lparr>Email := ''c@d.com'', Age := 50\<rparr>]" item1]
      old out ne w
    by (simp add: d user1_def)
qed

section \<open>Listing the records\<close>

text \<open>
  X3. \<^verbatim>\<open>list\<close> on an empty file writes nothing; on a file that is not empty and decodes
  it writes the encoding of the decoded records, which is the content read and written again
  and not a copy of the bytes. The two versions agree on this operation.
\<close>

theorem list_output:
  assumes args: "arg args ''fileName'' = name" "name \<noteq> []" "arg args ''operation'' = ''list''"
    and io: "open_error w name = None" "read_error w name = None" "write_error wr = Map.empty"
  shows "(files w name = Some [] \<longrightarrow> Perform j w args wr = (w, wr, None))
       \<and> (files w name = Some data \<and> data \<noteq> [] \<and> UnmarshalUsers j data = Inr item \<and>
            MarshalUsers j item = Inr out \<longrightarrow>
          Perform j w args wr = (w, wr\<lparr>written := written wr @ out\<rparr>, None))
       \<and> Perform_part0 j w args wr = Perform j w args wr"
proof -
  have P: "Perform j w args wr =
      (fst (OpenFile w name), listItems j (fst (OpenFile w name)) (File name) wr)"
    by (simp add: Perform_opened [OF args(1,2,3) _ io(1) refl])
  have P0: "Perform_part0 j w args wr =
      (fst (OpenFile w name), listItems j (fst (OpenFile w name)) (File name) wr)"
    by (simp add: Perform_part0_opened [OF args(1,2,3) _ io(1) refl])
  have opened: "fst (OpenFile w name) = w" if "files w name = Some d" for d
    using io(1) that by (simp add: OpenFile_existing)
  have rd: "ReadAll w (File name) = Inr d" if "files w name = Some d" for d
    using io(2) that by (simp add: ReadAll_def)
  have empty: "Perform j w args wr = (w, wr, None)" if "files w name = Some []"
    using io(3) by (simp add: P opened [OF that] listItems_def rd [OF that] Write_def)
  have full: "Perform j w args wr = (w, wr\<lparr>written := written wr @ out\<rparr>, None)"
    if "files w name = Some data" "data \<noteq> []" "UnmarshalUsers j data = Inr item"
      "MarshalUsers j item = Inr out"
    using that(2,3,4) io(3)
    by (simp add: P opened [OF that(1)] listItems_def rd [OF that(1)] Write_def)
  have same: "Perform_part0 j w args wr = Perform j w args wr"
    by (simp add: P P0)
  show ?thesis
    using empty full same by blast
qed

theorem list_output_witness:
  "Perform encoding_json (disk []) (parseArgs [] ''list'' [] ''users.json'') buffer =
     (disk [], buffer, None)
   \<and> Perform encoding_json (disk file12) (parseArgs [] ''list'' [] ''users.json'') buffer =
     (disk file12, buffer\<lparr>written := file12\<rparr>, None)
   \<and> Perform_part0 encoding_json (disk file12) (parseArgs [] ''list'' [] ''users.json'') buffer =
     (disk file12, buffer\<lparr>written := file12\<rparr>, None)"
proof -
  have old: "UnmarshalUsers encoding_json file12 = Inr (Some [user1, user2])"
    by (simp add: codec_defs example_defs)
  have out: "MarshalUsers encoding_json (Some [user1, user2]) = Inr file12"
    by (simp add: codec_defs example_defs encode_nat.simps)
  have ne: "file12 \<noteq> []"
    by (simp add: file12_def)
  show ?thesis
    using list_output [OF parseArgs_arg(4) _ parseArgs_arg(2) disk_io(1) disk_io(2) buffer_io(1),
        where data = "[]" and j = encoding_json]
      list_output [OF parseArgs_arg(4) _ parseArgs_arg(2) disk_io(1) disk_io(2) buffer_io(1),
        where data = file12 and j = encoding_json and item = "Some [user1, user2]" and out = file12]
      old out ne
    by (simp add: disk_io buffer_io)
qed

section \<open>Removing a record\<close>

text \<open>
  X1. \<^verbatim>\<open>removeUser\<close> of \<^verbatim>\<open>main.go\<close> on a file that is not empty and decodes: the first
  record of the given id is taken out, the others keep their order, and the encoding of what
  is left is written; when no record has the id, the message
  \<^verbatim>\<open>Item with id {id} not found\<close> is written. The file system is left as it was.
\<close>

theorem remove_main_output:
  assumes args: "arg args ''fileName'' = name" "name \<noteq> []" "arg args ''operation'' = ''remove''"
      "arg args ''id'' = uid" "uid \<noteq> []"
    and io: "open_error w name = None" "read_error w name = None" "write_error wr = Map.empty"
    and content: "files w name = Some data" "data \<noteq> []" "UnmarshalUsers j data = Inr item"
  shows "(elems item = pre @ user # post \<and> uid \<notin> ID ` set pre \<and> ID user = uid \<and>
            MarshalUsers j (Some (pre @ post)) = Inr out \<longrightarrow>
          Perform j w args wr = (w, wr\<lparr>written := written wr @ out\<rparr>, None))
       \<and> (uid \<notin> ID ` set (elems item) \<longrightarrow>
          Perform j w args wr =
            (w, wr\<lparr>written := written wr @ ''Item with id '' @ uid @ '' not found''\<rparr>, None))"
proof -
  have opened: "fst (OpenFile w name) = w"
    using io(1) content(1) by (simp add: OpenFile_existing)
  have rd: "ReadAll w (File name) = Inr data"
    using io(2) content(1) by (simp add: ReadAll_def)
  have P: "Perform j w args wr = (w, removeUser j w (File name) wr uid)"
    using args opened by (simp add: Perform_opened [OF args(1,2,3) _ io(1) refl])
  have found: "Perform j w args wr = (w, wr\<lparr>written := written wr @ out\<rparr>, None)"
    if "elems item = pre @ user # post" "uid \<notin> ID ` set pre" "ID user = uid"
      "MarshalUsers j (Some (pre @ post)) = Inr out"
  proof -
    have "removeUser_range 0 (elems item) uid = Some (length pre)"
      using that(1,2,3) by (simp add: removeUser_range_first)
    moreover have "delete_at item (length pre) = Some (pre @ post)"
      using that(1) by (rule delete_at_first)
    ultimately show ?thesis
      using content(2,3) that(4) io(3) rd by (simp add: P removeUser_def Write_def)
  qed
  have missing: "Perform j w args wr =
      (w, wr\<lparr>written := written wr @ ''Item with id '' @ uid @ '' not found''\<rparr>, None)"
    if "uid \<notin> ID ` set (elems item)"
  proof -
    have "removeUser_range 0 (elems item) uid = None"
      using that by (simp add: removeUser_range_None)
    then show ?thesis
      using content(2,3) io(3) rd by (simp add: P removeUser_def Write_def)
  qed
  show ?thesis
    using found missing by blast
qed

theorem remove_main_output_witness:
  "Perform encoding_json (disk file11) (parseArgs ''1'' ''remove'' [] ''users.json'') buffer =
     (disk file11, buffer\<lparr>written := file1_again\<rparr>, None)
   \<and> Perform encoding_json (disk file11) (parseArgs ''2'' ''remove'' [] ''users.json'') buffer =
     (disk file11, buffer\<lparr>written := ''Item with id 2 not found''\<rparr>, None)"
proof -
  have old: "UnmarshalUsers encoding_json file11 = Inr (Some [user1, user1\<lparr>Email := ''c@d.com'', Age := 50\<rparr>])"
    by (simp add: codec_defs example_defs)
  have out: "MarshalUsers encoding_json (Some ([] @ [user1\<lparr>Email := ''c@d.com'', Age := 50\<rparr>])) = Inr file1_again"
    by (simp add: codec_defs example_defs encode_nat.simps)
  have a: "arg (parseArgs uid ''remove'' [] ''users.json'') ''fileName'' = ''users.json''"
    "arg (parseArgs uid ''remove'' [] ''users.json'') ''operation'' = ''remove''"
    "arg (parseArgs uid ''remove'' [] ''users.json'') ''id'' = uid" for uid
    by (simp_all add: parseArgs_def arg_def)
  have d: "open_error (disk data) ''users.json'' = None" "read_error (disk data) ''users.json'' = None"
    "files (disk data) ''users.json'' = Some data" "write_error buffer = Map.empty" for data
    by (simp_all add: disk_def buffer_def)
  have ne: "file11 \<noteq> []"
    by (simp add: example_defs)
  have w: "written buffer = []"
    by (simp add: buffer_def)
  show ?thesis
    using remove_main_output [OF a(1) _ a(2) a(3) _ d(1) d(2) d(4) d(3) ne old, of "''1''" "[]" user1
        "[user1\<lparr>Email := ''c@d.com'', Age := 50\<rparr>]" file1_again]
      remove_main_output [OF a(1) _ a(2) a(3) _ d(1) d(2) d(4) d(3) ne old, of "''2''"]
      out w
    by (simp add: user1_def)
qed

text \<open>
  X5. \<^verbatim>\<open>remove\<close> of \<^verbatim>\<open>part_000\<close>. On an empty file it writes the not-found message
  (where \<^verbatim>\<open>main.go\<close> writes nothing). On a file that is not empty and decodes it writes
  the encoding of the records without the first one of the given id, and, when no record has
  the id, the encoding of all the records.
\<close>

theorem remove_part0_output:
  assumes args: "arg args ''fileName'' = name" "name \<noteq> []" "arg args ''operation'' = ''remove''"
      "arg args ''id'' = uid" "uid \<noteq> []"
    and io: "open_error w name = None" "read_error w name = None" "write_error wr = Map.empty"
  shows "(files w name = Some [] \<longrightarrow>
          Perform_part0 j w args wr =
            (w, wr\<lparr>written := written wr @ ''Item with id '' @ uid @ '' not found''\<rparr>, None)
          \<and> Perform j w args wr = (w, wr, None))
       \<and> (files w name = Some data \<and> data \<noteq> [] \<and> UnmarshalUsers j data = Inr item \<and>
            elems item = pre @ user # post \<and> uid \<notin> ID ` set pre \<and> ID user = uid \<and>
            MarshalUsers j (Some (pre @ post)) = Inr out \<longrightarrow>
          Perform_part0 j w args wr = (w, wr\<lparr>written := written wr @ out\<rparr>, None))
       \<and> (files w name = Some data \<and> data \<noteq> [] \<and> UnmarshalUsers j data = Inr item \<and>
            uid \<notin> ID ` set (elems item) \<and> MarshalUsers j item = Inr out \<longrightarrow>
          Perform_part0 j w args wr = (w, wr\<lparr>written := written wr @ out\<rparr>, None))"
proof -
  have P: "Perform j w args wr =
      (fst (OpenFile w name), removeUser j (fst (OpenFile w name)) (File name) wr uid)"
    using args by (simp add: Perform_opened [OF args(1,2,3) _ io(1) refl])
  have P0: "Perform_part0 j w args wr =
      (fst (OpenFile w name), removeUser_part0 j (fst (OpenFile w name)) (File name) wr uid)"
    using args by (simp add: Perform_part0_opened [OF args(1,2,3) _ io(1) refl])
  have opened: "fst (OpenFile w name) = w" if "files w name = Some d" for d
    using io(1) that by (simp add: OpenFile_existing)
  have rd: "ReadAll w (File name) = Inr d" if "files w name = Some d" for d
    using io(2) that by (simp add: ReadAll_def)
  have empty: "Perform_part0 j w args wr =
        (w, wr\<lparr>written := written wr @ ''Item with id '' @ uid @ '' not found''\<rparr>, None)
      \<and> Perform j w args wr = (w, wr, None)"
    if "files w name = Some []"
    using io(3)
    by (simp add: P P0 opened [OF that] removeUser_def removeUser_part0_def rd [OF that] Write_def)
  have found: "Perform_part0 j w args wr = (w, wr\<lparr>written := written wr @ out\<rparr>, None)"
    if "files w name = Some data" "data \<noteq> []" "UnmarshalUsers j data = Inr item"
      "elems item = pre @ user # post" "uid \<notin> ID ` set pre" "ID user = uid"
      "MarshalUsers j (Some (pre @ post)) = Inr out"
  proof -
    have "removeUser_range 0 (elems item) uid = Some (length pre)"
      using that(4,5,6) by (simp add: removeUser_range_first)
    moreover have "delete_at item (length pre) = Some (pre @ post)"
      using that(4) by (rule delete_at_first)
    ultimately show ?thesis
      using that(2,3,7) io(3)
      by (simp add: P0 opened [OF that(1)] removeUser_part0_def rd [OF that(1)] Write_def)
  qed
  have missing: "Perform_part0 j w args wr = (w, wr\<lparr>written := written wr @ out\<rparr>, None)"
    if "files w name = Some data" "data \<noteq> []" "UnmarshalUsers j data = Inr item"
      "uid \<notin> ID ` set (elems item)" "MarshalUsers j item = Inr out"
  proof -
    have "removeUser_range 0 (elems item) uid = None"
      using that(4) by (simp add: removeUser_range_None)
    then show ?thesis
      using that(2,3,5) io(3)
      by (simp add: P0 opened [OF that(1)] removeUser_part0_def rd [OF that(1)] Write_def)
  qed
  show ?thesis
    using empty found missing by blast
qed

theorem remove_part0_output_witness:
  "Perform_part0 encoding_json (disk []) (parseArgs ''1'' ''remove'' [] ''users.json'') buffer =
     (disk [], buffer\<lparr>written := ''Item with id 1 not found''\<rparr>, None)
   \<and> Perform encoding_json (disk []) (parseArgs ''1'' ''remove'' [] ''users.json'') buffer =
     (disk [], buffer, None)
   \<and> Perform_part0 encoding_json (disk file1) (parseArgs ''1'' ''remove'' [] ''users.json'') buffer =
     (disk file1, buffer\<lparr>written := ''[]''\<rparr>, None)
   \<and> Perform_part0 encoding_json (disk file12) (parseArgs ''3'' ''remove'' [] ''users.json'') buffer =
     (disk file12, buffer\<lparr>written := file12\<rparr>, None)"
proof -
  have old1: "UnmarshalUsers encoding_json file1 = Inr (Some [user1])"
    by (simp add: codec_defs example_defs)
  have old12: "UnmarshalUsers encoding_json file12 = Inr (Some [user1, user2])"
    by (simp add: codec_defs example_defs)
  have out0: "MarshalUsers encoding_json (Some ([] @ [])) = Inr ''[]''"
    by (simp add: codec_defs)
  have out12: "MarshalUsers encoding_json (Some [user1, user2]) = Inr file12"
    by (simp add: codec_defs example_defs encode_nat.simps)
  have ne: "file1 \<noteq> []" "file12 \<noteq> []"
    by (simp_all add: file1_def file12_def)
  have ids: "ID user1 = ''1''" "ID user2 = ''2''"
    by (simp_all add: user1_def user2_def)
  show ?thesis
    using remove_part0_output [OF parseArgs_arg(4) _ parseArgs_arg(2) parseArgs_arg(1) _
        disk_io(1) disk_io(2) buffer_io(1), where data = "[]" and j = encoding_json and uid = "''1''"]
      remove_part0_output [OF parseArgs_arg(4) _ parseArgs_arg(2) parseArgs_arg(1) _
        disk_io(1) disk_io(2) buffer_io(1), where data = file1 and j = encoding_json
        and uid = "''1''" and item = "Some [user1]" and pre = "[]" and user = user1 and post = "[]"
        and out = "''[]''"]
      remove_part0_output [OF parseArgs_arg(4) _ parseArgs_arg(2) parseArgs_arg(1) _
        disk_io(1) disk_io(2) buffer_io(1), where data = file12 and j = encoding_json
        and uid = "''3''" and item = "Some [user1, user2]" and out = file12]
      old1 old12 out0 out12 ne ids
    by (simp add: disk_io buffer_io)
qed

text \<open>
  C3. The same is claimed of both versions. \<^verbatim>\<open>removeUser\<close> of \<^verbatim>\<open>part_000\<close> has no
  branch for an id that is not found in a file that is not empty: its loop ends, and the
  slice, unchanged, is encoded and written where the message should be. On the file that
  holds the record with id 1, removing id 2 writes the file's content back in
  \<^verbatim>\<open>part_000\<close> and the message in \<^verbatim>\<open>main.go\<close>.
\<close>

theorem remove_part0_not_found_writes_list:
  "Perform_part0 encoding_json (disk file1) (parseArgs ''2'' ''remove'' [] ''users.json'') buffer =
     (disk file1, buffer\<lparr>written := file1\<rparr>, None)
   \<and> Perform encoding_json (disk file1) (parseArgs ''2'' ''remove'' [] ''users.json'') buffer =
     (disk file1, buffer\<lparr>written := ''Item with id 2 not found''\<rparr>, None)"
proof -
  have old: "UnmarshalUsers encoding_json file1 = Inr (Some [user1])"
    by (simp add: codec_defs example_defs)
  have out: "MarshalUsers encoding_json (Some [user1]) = Inr file1"
    by (simp add: codec_defs example_defs encode_nat.simps)
  have ne: "file1 \<noteq> []"
    by (simp add: example_defs)
  have rd: "ReadAll (disk file1) (File ''users.json'') = Inr file1"
    by (simp add: ReadAll_def disk_def)
  have op: "OpenFile (disk file1) ''users.json'' = (disk file1, Inr (File ''users.json''))"
    by (simp add: OpenFile_def disk_def)
  have id1: "ID user1 = ''1''"
    by (simp add: user1_def)
  have r0: "removeUser_part0 encoding_json (disk file1) (File ''users.json'') buffer ''2'' =
      (buffer\<lparr>written := file1\<rparr>, None)"
    using ne by (simp add: removeUser_part0_def rd old out Write_def buffer_def id1)
  have r: "removeUser encoding_json (disk file1) (File ''users.json'') buffer ''2'' =
      (buffer\<lparr>written := ''Item with id 2 not found''\<rparr>, None)"
    using ne by (simp add: removeUser_def rd old Write_def buffer_def id1)
  show ?thesis
    by (simp add: Perform_def Perform_part0_def parseArgs_def arg_def op r0 r)
qed

section \<open>What is stored\<close>

text \<open>
  C4. Adding records one after the other and then listing should give those records back.
  With one record and no file to start from: \<^verbatim>\<open>add\<close> leaves an empty file behind (in
  \<^verbatim>\<open>main.go\<close> it writes the text of the item to the output, in \<^verbatim>\<open>part_000\<close> it fails in the
  decoder), the \<^verbatim>\<open>list\<close> that follows writes nothing, and nothing does not decode to the
  record that was added.
\<close>

theorem add_then_list_prints_nothing:
  "Perform encoding_json no_files (parseArgs [] ''add'' item1 ''users.json'') buffer =
     (disk [], buffer\<lparr>written := item1\<rparr>, None)
   \<and> Perform encoding_json (disk []) (parseArgs [] ''list'' [] ''users.json'') buffer =
     (disk [], buffer, None)
   \<and> (\<exists>msg. Perform_part0 encoding_json no_files (parseArgs [] ''add'' item1 ''users.json'') buffer =
     (disk [], buffer, Some (JSONError msg)))
   \<and> Perform_part0 encoding_json (disk []) (parseArgs [] ''list'' [] ''users.json'') buffer =
     (disk [], buffer, None)
   \<and> UnmarshalUser encoding_json item1 = Inr user1
   \<and> UnmarshalUsers encoding_json (written buffer) \<noteq> Inr (Some [user1])"
proof -
  have ne: "item1 \<noteq> []"
    by (simp add: item1_def)
  have add: "addItem encoding_json (disk []) (File ''users.json'') buffer item1 =
      (buffer\<lparr>written := item1\<rparr>, None)"
    by (simp add: addItem_def disk_io buffer_io)
  have add0: "addItem_part0 encoding_json (disk []) (File ''users.json'') buffer item1 =
      (buffer, Some (JSONError ''json: syntax error''))"
    by (simp add: addItem_part0_def disk_io Unmarshal_empty)
  have list: "listItems encoding_json (disk []) (File ''users.json'') buffer = (buffer, None)"
    by (simp add: listItems_def disk_io buffer_def Write_def)
  have new: "UnmarshalUser encoding_json item1 = Inr user1"
    by (simp add: codec_defs example_defs)
  show ?thesis
    using ne
    by (simp add: Perform_def Perform_part0_def parseArgs_arg no_files_io disk_io add add0 list new
        buffer_io Unmarshal_empty)
qed

text \<open>
  X6. More generally, when the backing file is empty or not there, it is still empty after
  any runs of the program whatever (any operations, any items), and a \<^verbatim>\<open>list\<close> that
  follows writes nothing. This holds in both versions and for every codec.
\<close>

theorem list_after_any_runs_writes_nothing:
  assumes "files w name = None \<or> files w name = Some []"
    and "open_error w name = None" and "read_error w name = None"
    and "write_error wr = Map.empty"
    and "arg args ''fileName'' = name" and "name \<noteq> []" and "arg args ''operation'' = ''list''"
  shows "snd (Perform j (in_turn (Perform j) w runs) args wr) = (wr, None)
       \<and> snd (Perform_part0 j (in_turn (Perform_part0 j) w runs) args wr) = (wr, None)"
  using in_turn_keeps_empty [OF assms(1), of j runs] assms(2,3)
  by (simp add: list_on_empty [OF _ _ _ assms(4,5,6,7)])

theorem list_after_any_runs_writes_nothing_witness:
  "snd (Perform encoding_json
          (in_turn (Perform encoding_json) no_files
             [(parseArgs [] ''add'' item1 ''users.json'', buffer),
              (parseArgs [] ''add'' item2 ''users.json'', buffer)])
          (parseArgs [] ''list'' [] ''users.json'') buffer) = (buffer, None)
   \<and> snd (Perform_part0 encoding_json
          (in_turn (Perform_part0 encoding_json) no_files
             [(parseArgs [] ''add'' item1 ''users.json'', buffer),
              (parseArgs [] ''add'' item2 ''users.json'', buffer)])
          (parseArgs [] ''list'' [] ''users.json'') buffer) = (buffer, None)"
  using list_after_any_runs_writes_nothing [OF _ no_files_io(1) no_files_io(2) buffer_io(1)
      parseArgs_arg(4) _ parseArgs_arg(2), where j = encoding_json
      and runs = "[(parseArgs [] ''add'' item1 ''users.json'', buffer),
                   (parseArgs [] ''add'' item2 ''users.json'', buffer)]"]
  by (simp add: no_files_io)

text \<open>
  C10. No operation writes to the backing file. Whatever the arguments, the codec and the
  writer, the file system that \<^verbatim>\<open>Perform\<close> leaves is the one it found, or the one it found
  with the backing file created empty where there was none; so the content of every file
  that was there is the same after the call, byte for byte. Results go to the writer only.
  This holds in both versions.
\<close>

theorem backing_file_never_written:
  "(fst (Perform j w args wr) = w \<or>
      files w (arg args ''fileName'') = None \<and>
      fst (Perform j w args wr) = w\<lparr>files := (files w)(arg args ''fileName'' \<mapsto> [])\<rparr>)
   \<and> (fst (Perform_part0 j w args wr) = w \<or>
      files w (arg args ''fileName'') = None \<and>
      fst (Perform_part0 j w args wr) = w\<lparr>files := (files w)(arg args ''fileName'' \<mapsto> [])\<rparr>)
   \<and> (files w p = Some data \<longrightarrow>
      files (fst (Perform j w args wr)) p = Some data \<and>
      files (fst (Perform_part0 j w args wr)) p = Some data)"
proof -
  have a: "fst (Perform j w args wr) = w \<or>
      files w (arg args ''fileName'') = None \<and>
      fst (Perform j w args wr) = w\<lparr>files := (files w)(arg args ''fileName'' \<mapsto> [])\<rparr>"
    using Perform_frame(1) [of j w args wr] OpenFile_frame [of w "arg args ''fileName''"] by auto
  have b: "fst (Perform_part0 j w args wr) = w \<or>
      files w (arg args ''fileName'') = None \<and>
      fst (Perform_part0 j w args wr) = w\<lparr>files := (files w)(arg args ''fileName'' \<mapsto> [])\<rparr>"
    using Perform_frame(2) [of j w args wr] OpenFile_frame [of w "arg args ''fileName''"] by auto
  have c: "files (fst (Perform j w args wr)) p = Some data" if "files w p = Some data"
    using a that by auto
  have d: "files (fst (Perform_part0 j w args wr)) p = Some data" if "files w p = Some data"
    using b that by auto
  show ?thesis
    using a b c d by blast
qed

theorem backing_file_never_written_witness:
  "files (fst (Perform encoding_json (disk file1) (parseArgs [] ''add'' item2 ''users.json'') buffer))
     ''users.json'' = Some file1
   \<and> files (fst (Perform_part0 encoding_json (disk file1) (parseArgs ''1'' ''remove'' [] ''users.json'')
     buffer)) ''users.json'' = Some file1"
  using backing_file_never_written [where w = "disk file1" and p = "''users.json''" and data = file1
      and j = encoding_json and wr = buffer and args = "parseArgs [] ''add'' item2 ''users.json''"]
    backing_file_never_written [where w = "disk file1" and p = "''users.json''" and data = file1
      and j = encoding_json and wr = buffer and args = "parseArgs ''1'' ''remove'' [] ''users.json''"]
  by (simp add: disk_io)

section \<open>Failures\<close>

text \<open>
  C9. In every operation of both versions, a failure to read the file, a failure to decode
  the content of the file and a failure to decode the text of the item each make the
  operation return that very error with the writer as it was. (The content is decoded when
  it is not empty, and by \<^verbatim>\<open>addItem\<close> of \<^verbatim>\<open>part_000\<close> when it is empty too; the item is
  decoded once the content has been.) More generally, an operation that returns an error
  on a writer that takes every payload, so an error that is not the writer's own, has
  written nothing.
\<close>

theorem failures_write_nothing:
  "(ReadAll w f = Inl err \<longrightarrow>
      addItem j w f wr item = (wr, Some err) \<and> listItems j w f wr = (wr, Some err) \<and>
      findUserById j w f wr uid = (wr, Some err) \<and> removeUser j w f wr uid = (wr, Some err) \<and>
      addItem_part0 j w f wr item = (wr, Some err) \<and> removeUser_part0 j w f wr uid = (wr, Some err))
   \<and> (ReadAll w f = Inr data \<and> data \<noteq> [] \<and> UnmarshalUsers j data = Inl err \<longrightarrow>
      addItem j w f wr item = (wr, Some err) \<and> listItems j w f wr = (wr, Some err) \<and>
      findUserById j w f wr uid = (wr, Some err) \<and> removeUser j w f wr uid = (wr, Some err) \<and>
      addItem_part0 j w f wr item = (wr, Some err) \<and> removeUser_part0 j w f wr uid = (wr, Some err))
   \<and> (ReadAll w f = Inr [] \<and> UnmarshalUsers j [] = Inl err \<longrightarrow>
      addItem_part0 j w f wr item = (wr, Some err))
   \<and> (ReadAll w f = Inr data \<and> data \<noteq> [] \<and> UnmarshalUsers j data = Inr itemArray \<and>
       UnmarshalUser j item = Inl err \<longrightarrow>
      addItem j w f wr item = (wr, Some err) \<and> addItem_part0 j w f wr item = (wr, Some err))
   \<and> (write_error wr = Map.empty \<longrightarrow>
      (snd (addItem j w f wr item) \<noteq> None \<longrightarrow> fst (addItem j w f wr item) = wr) \<and>
      (snd (listItems j w f wr) \<noteq> None \<longrightarrow> fst (listItems j w f wr) = wr) \<and>
      (snd (findUserById j w f wr uid) \<noteq> None \<longrightarrow> fst (findUserById j w f wr uid) = wr) \<and>
      (snd (removeUser j w f wr uid) \<noteq> None \<longrightarrow> fst (removeUser j w f wr uid) = wr) \<and>
      (snd (addItem_part0 j w f wr item) \<noteq> None \<longrightarrow> fst (addItem_part0 j w f wr item) = wr) \<and>
      (snd (removeUser_part0 j w f wr uid) \<noteq> None \<longrightarrow>
         fst (removeUser_part0 j w f wr uid) = wr))"
proof -
  have rd: "ReadAll w f = Inl err \<longrightarrow>
      addItem j w f wr item = (wr, Some err) \<and> listItems j w f wr = (wr, Some err) \<and>
      findUserById j w f wr uid = (wr, Some err) \<and> removeUser j w f wr uid = (wr, Some err) \<and>
      addItem_part0 j w f wr item = (wr, Some err) \<and> removeUser_part0 j w f wr uid = (wr, Some err)"
    by (simp add: addItem_def listItems_def findUserById_def removeUser_def addItem_part0_def
        removeUser_part0_def)
  have dec: "ReadAll w f = Inr data \<and> data \<noteq> [] \<and> UnmarshalUsers j data = Inl err \<longrightarrow>
      addItem j w f wr item = (wr, Some err) \<and> listItems j w f wr = (wr, Some err) \<and>
      findUserById j w f wr uid = (wr, Some err) \<and> removeUser j w f wr uid = (wr, Some err) \<and>
      addItem_part0 j w f wr item = (wr, Some err) \<and> removeUser_part0 j w f wr uid = (wr, Some err)"
    by (simp add: addItem_def listItems_def findUserById_def removeUser_def addItem_part0_def
        removeUser_part0_def)
  have dec0: "ReadAll w f = Inr [] \<and> UnmarshalUsers j [] = Inl err \<longrightarrow>
      addItem_part0 j w f wr item = (wr, Some err)"
    by (simp add: addItem_part0_def)
  have it: "ReadAll w f = Inr data \<and> data \<noteq> [] \<and> UnmarshalUsers j data = Inr itemArray \<and>
       UnmarshalUser j item = Inl err \<longrightarrow>
      addItem j w f wr item = (wr, Some err) \<and> addItem_part0 j w f wr item = (wr, Some err)"
    by (simp add: addItem_def addItem_part0_def)
  show ?thesis
    using rd dec dec0 it error_leaves_writer [of wr j w f] by blast
qed

theorem failures_write_nothing_witness:
  "listItems encoding_json unreadable (File ''users.json'') buffer =
     (buffer, Some (IOError ''read users.json: input/output error''))
   \<and> removeUser_part0 encoding_json (disk ''[{'') (File ''users.json'') buffer ''1'' =
     (buffer, Some (JSONError ''json: syntax error''))
   \<and> addItem_part0 encoding_json (disk []) (File ''users.json'') buffer item1 =
     (buffer, Some (JSONError ''json: syntax error''))
   \<and> addItem encoding_json (disk file1) (File ''users.json'') buffer ''not json'' =
     (buffer, Some (JSONError ''json: syntax error''))"
proof -
  have rd: "ReadAll unreadable (File ''users.json'') = Inl (IOError ''read users.json: input/output error'')"
    by (simp add: ReadAll_def unreadable_def)
  have dec: "UnmarshalUsers encoding_json ''[{'' = Inl (JSONError ''json: syntax error'')"
    by (simp add: codec_defs)
  have old: "UnmarshalUsers encoding_json file1 = Inr (Some [user1])"
    by (simp add: codec_defs example_defs)
  have bad: "UnmarshalUser encoding_json ''not json'' = Inl (JSONError ''json: syntax error'')"
    by (simp add: codec_defs)
  have ne: "file1 \<noteq> []"
    by (simp add: file1_def)
  show ?thesis
    using failures_write_nothing [where w = unreadable and f = "File ''users.json''"
        and err = "IOError ''read users.json: input/output error''" and j = encoding_json
        and wr = buffer]
      failures_write_nothing [where w = "disk ''[{''" and f = "File ''users.json''"
        and data = "''[{''" and err = "JSONError ''json: syntax error''" and j = encoding_json
        and wr = buffer and uid = "''1''"]
      failures_write_nothing [where w = "disk []" and f = "File ''users.json''"
        and err = "JSONError ''json: syntax error''" and j = encoding_json
        and wr = buffer and item = item1]
      failures_write_nothing [where w = "disk file1" and f = "File ''users.json''"
        and data = file1 and err = "JSONError ''json: syntax error''" and j = encoding_json
        and wr = buffer and item = "''not json''" and itemArray = "Some [user1]"]
      rd dec old bad ne
    by (simp add: disk_io Unmarshal_empty)
qed

text \<open>
  X2. Whenever \<^verbatim>\<open>Perform\<close> returns an error on a writer that takes every payload
  (a missing flag, an operation that is not allowed, a failure to open or to read, an error
  of the codec), the writer is as it was: nothing has been written. This holds in both
  versions.
\<close>

theorem Perform_error_writes_nothing:
  assumes "write_error wr = Map.empty"
  shows "(snd (snd (Perform j w args wr)) \<noteq> None \<longrightarrow> fst (snd (Perform j w args wr)) = wr)
       \<and> (snd (snd (Perform_part0 j w args wr)) \<noteq> None \<longrightarrow>
            fst (snd (Perform_part0 j w args wr)) = wr)"
  using error_leaves_writer [OF assms, of j]
  by (simp add: Perform_def Perform_part0_def Let_def split: prod.splits sum.splits)

theorem Perform_error_writes_nothing_witness:
  "fst (snd (Perform encoding_json (disk ''[{'') (parseArgs [] ''list'' [] ''users.json'') buffer)) =
     buffer
   \<and> fst (snd (Perform_part0 encoding_json (disk []) (parseArgs [] ''add'' item1 ''users.json'')
        buffer)) = buffer"
proof -
  have dec: "UnmarshalUsers encoding_json ''[{'' = Inl (JSONError ''json: syntax error'')"
    by (simp add: codec_defs)
  have l: "snd (snd (Perform encoding_json (disk ''[{'') (parseArgs [] ''list'' [] ''users.json'')
      buffer)) \<noteq> None"
    by (simp add: Perform_def parseArgs_arg disk_io listItems_def dec)
  have a: "snd (snd (Perform_part0 encoding_json (disk []) (parseArgs [] ''add'' item1 ''users.json'')
      buffer)) \<noteq> None"
    by (simp add: Perform_part0_def parseArgs_arg disk_io addItem_part0_def Unmarshal_empty item1_def)
  show ?thesis
    using Perform_error_writes_nothing [OF buffer_io(1), of encoding_json "disk ''[{''"
        "parseArgs [] ''list'' [] ''users.json''"]
      Perform_error_writes_nothing [OF buffer_io(1), of encoding_json "disk []"
        "parseArgs [] ''add'' item1 ''users.json''"] l a
    by simp
qed

end
